theory Spec2Isabelle
  imports Main
begin

section \<open>Data model (engine/game.go)\<close>

text \<open>
  \<^verbatim>\<open>Direction\<close>, \<^verbatim>\<open>AppleType\<close> and the death reason are Go strings; the
  named constants are the strings the source declares. Go's \<^verbatim>\<open>int\<close> is modelled
  as \<open>int\<close>: coordinates, lengths and counters stay within a few cells or turns of
  the values a match starts from, far from the 64-bit range.
\<close>

type_synonym Direction = string

abbreviation DirectionUp :: Direction where "DirectionUp \<equiv> ''UP''"
abbreviation DirectionDown :: Direction where "DirectionDown \<equiv> ''DOWN''"
abbreviation DirectionLeft :: Direction where "DirectionLeft \<equiv> ''LEFT''"
abbreviation DirectionRight :: Direction where "DirectionRight \<equiv> ''RIGHT''"

type_synonym AppleType = string

abbreviation AppleNormal :: AppleType where "AppleNormal \<equiv> ''NORMAL''"
abbreviation AppleGod :: AppleType where "AppleGod \<equiv> ''GOD''"
abbreviation AppleSpeed :: AppleType where "AppleSpeed \<equiv> ''SPEED''"
abbreviation AppleSleep :: AppleType where "AppleSleep \<equiv> ''SLEEP''"
abbreviation ApplePoison :: AppleType where "ApplePoison \<equiv> ''POISON''"

record Position =
  X :: int
  Y :: int

record Apple =
  Apple_X :: int
  Apple_Y :: int
  Apple_Type :: AppleType

record Snake =
  ID :: int
  Body :: "Position list"
  Direction :: Direction
  Alive :: bool
  Length :: int
  Score :: int
  SpeedTurns :: int
  SleepTurns :: int
  Energy :: int
  DeathReason :: string

record GameMap =
  Width :: int
  Height :: int
  Obstacles :: "Position list"

text \<open>
  \<^verbatim>\<open>Snakes [2]*Snake\<close> is a pair of two distinct snake objects; \<^verbatim>\<open>Map *Map\<close> is
  optional (\<open>None\<close> is Go's nil).
\<close>

record GameState =
  Turn :: int
  GridWidth :: int
  GridHeight :: int
  Snakes :: "Snake \<times> Snake"
  Apples :: "Apple list"
  Map :: "GameMap option"
  Winner :: int
  GameOver :: bool

text \<open>
  \<^verbatim>\<open>gs.Snakes[i]\<close>: index 0 is snake 1, index 1 is snake 2. Go panics on any other
  index; the repository indexes with a player number 1 or 2 only (the literals in
  ProcessTurn, the bot players NewMatch creates), and statements that take a player
  number as a parameter say so.
\<close>

definition snakeAt :: "GameState \<Rightarrow> int \<Rightarrow> Snake" where
  "snakeAt gs i = (if i = 0 then fst (Snakes gs) else snd (Snakes gs))"

definition setSnake :: "GameState \<Rightarrow> int \<Rightarrow> Snake \<Rightarrow> GameState" where
  "setSnake gs i s =
     (if i = 0 then gs\<lparr>Snakes := (s, snd (Snakes gs))\<rparr>
      else gs\<lparr>Snakes := (fst (Snakes gs), s)\<rparr>)"

section \<open>Snake movement\<close>

definition GetHead :: "Snake \<Rightarrow> Position" where
  "GetHead s = (case Body s of [] \<Rightarrow> \<lparr>X = -1, Y = -1\<rparr> | h # _ \<Rightarrow> h)"

text \<open>The map literal of isNot180; a key that is absent reads as the empty string.\<close>

definition opposite :: "Direction \<Rightarrow> Direction" where
  "opposite d =
     (if d = DirectionUp then DirectionDown
      else if d = DirectionDown then DirectionUp
      else if d = DirectionLeft then DirectionRight
      else if d = DirectionRight then DirectionLeft
      else '''')"

definition isNot180 :: "Snake \<Rightarrow> Direction \<Rightarrow> bool" where
  "isNot180 s newDir =
     (if length (Body s) < 2 then True else opposite (Direction s) \<noteq> newDir)"

definition getNextPosition :: "Position \<Rightarrow> Direction \<Rightarrow> Position" where
  "getNextPosition pos dir =
     (if dir = DirectionUp then \<lparr>X = X pos, Y = Y pos - 1\<rparr>
      else if dir = DirectionDown then \<lparr>X = X pos, Y = Y pos + 1\<rparr>
      else if dir = DirectionLeft then \<lparr>X = X pos - 1, Y = Y pos\<rparr>
      else if dir = DirectionRight then \<lparr>X = X pos + 1, Y = Y pos\<rparr>
      else pos)"

definition Move :: "Snake \<Rightarrow> Direction \<Rightarrow> bool \<Rightarrow> Snake" where
  "Move s newDirection grow =
     (if \<not> Alive s then s
      else
        let s1 = (if isNot180 s newDirection then s\<lparr>Direction := newDirection\<rparr> else s);
            head = GetHead s1;
            newHead = getNextPosition head (Direction s1);
            s2 = s1\<lparr>Body := newHead # Body s1\<rparr>
        in if \<not> grow then s2\<lparr>Body := butlast (Body s2)\<rparr>
           else s2\<lparr>Length := Length s2 + 1\<rparr>)"

section \<open>Collisions and apples\<close>

text \<open>
  The comparison \<^verbatim>\<open>head.X == p.X && head.Y == p.Y\<close> of the collision loops, and the
  two assignments by which a collision marks a snake dead.
\<close>

definition samePos :: "Position \<Rightarrow> Position \<Rightarrow> bool" where
  "samePos p q = (X p = X q \<and> Y p = Y q)"

definition kill :: "Snake \<Rightarrow> string \<Rightarrow> Snake" where
  "kill snake reason = snake\<lparr>Alive := False, DeathReason := reason\<rparr>"

text \<open>
  CheckCollision returns the collision flag next to the state it has updated. The two
  body loops skip index 0 of the body they scan.
\<close>

definition CheckCollision :: "GameState \<Rightarrow> int \<Rightarrow> GameState \<times> bool" where
  "CheckCollision gs snakeID =
     (let snake = snakeAt gs (snakeID - 1) in
      if \<not> Alive snake then (gs, False)
      else
        let head = GetHead snake in
        if X head < 0 \<or> X head \<ge> GridWidth gs \<or> Y head < 0 \<or> Y head \<ge> GridHeight gs
        then (setSnake gs (snakeID - 1) (kill snake ''wall''), True)
        else if list_ex (samePos head) (drop 1 (Body snake))
        then (setSnake gs (snakeID - 1) (kill snake ''self''), True)
        else if list_ex (samePos head) (drop 1 (Body (snakeAt gs (snakeID mod 2))))
        then (setSnake gs (snakeID - 1) (kill snake ''body''), True)
        else if (case Map gs of None \<Rightarrow> False
                 | Some m \<Rightarrow> list_ex (samePos head) (Obstacles m))
        then (setSnake gs (snakeID - 1) (kill snake ''obstacle''), True)
        else (gs, False))"

text \<open>The first apple under the head, and the apples without it.\<close>

fun eatFirst :: "Position \<Rightarrow> Apple list \<Rightarrow> (AppleType \<times> Apple list) option" where
  "eatFirst head [] = None"
| "eatFirst head (apple # rest) =
     (if X head = Apple_X apple \<and> Y head = Apple_Y apple then Some (Apple_Type apple, rest)
      else (case eatFirst head rest of
              None \<Rightarrow> None
            | Some (t, rest') \<Rightarrow> Some (t, apple # rest')))"

definition CheckAppleEaten :: "GameState \<Rightarrow> int \<Rightarrow> GameState \<times> bool \<times> AppleType" where
  "CheckAppleEaten gs snakeID =
     (let snake = snakeAt gs (snakeID - 1) in
      if \<not> Alive snake then (gs, False, '''')
      else (case eatFirst (GetHead snake) (Apples gs) of
              None \<Rightarrow> (gs, False, '''')
            | Some (appleType, rest) \<Rightarrow> (gs\<lparr>Apples := rest\<rparr>, True, appleType)))"

definition manhattanDistance :: "Position \<Rightarrow> Position \<Rightarrow> int" where
  "manhattanDistance p1 p2 =
     (let dx = X p1 - X p2; dx = (if dx < 0 then - dx else dx);
          dy = Y p1 - Y p2; dy = (if dy < 0 then - dy else dy)
      in dx + dy)"

section \<open>Zone-based apple spawning\<close>

text \<open>
  The global source of math/rand is an arbitrary infinite sequence of raw draws;
  \<^verbatim>\<open>rand.Intn(n)\<close> takes the next draw into \<open>{0..<n}\<close> and advances the sequence.
  SpawnApple calls it with a positive \<open>n\<close> only.
\<close>

type_synonym rng = "nat \<Rightarrow> nat"

definition Intn :: "rng \<Rightarrow> nat \<Rightarrow> nat \<times> rng" where
  "Intn g n = (g 0 mod n, \<lambda>i. g (Suc i))"

definition applePos :: "Apple \<Rightarrow> Position" where
  "applePos apple = \<lparr>X = Apple_X apple, Y = Apple_Y apple\<rparr>"

text \<open>The keys of the \<^verbatim>\<open>occupied\<close> map, in the order SpawnApple inserts them.\<close>

definition occupied :: "GameState \<Rightarrow> Position list" where
  "occupied gs =
     Body (fst (Snakes gs)) @ Body (snd (Snakes gs)) @ map applePos (Apples gs) @
     (case Map gs of None \<Rightarrow> [] | Some m \<Rightarrow> Obstacles m)"

text \<open>The cells of the grid in the order of the two nested loops (rows outermost).\<close>

definition gridCells :: "GameState \<Rightarrow> Position list" where
  "gridCells gs =
     concat (map (\<lambda>y. map (\<lambda>x. \<lparr>X = x, Y = y\<rparr>) [0..GridWidth gs - 1]) [0..GridHeight gs - 1])"

datatype Zone = Neutral | Snake1Zone | Snake2Zone

text \<open>
  The classification SpawnApple applies to an empty cell and, in a second copy of the
  same code, to an existing apple.
\<close>

definition zoneOf :: "Position \<Rightarrow> Position \<Rightarrow> Position \<Rightarrow> Zone" where
  "zoneOf head1 head2 pos =
     (let dist1 = manhattanDistance pos head1;
          dist2 = manhattanDistance pos head2;
          distDiff = dist1 - dist2;
          distDiff = (if distDiff < 0 then - distDiff else distDiff)
      in if distDiff \<le> 3 then Neutral
         else if dist1 < dist2 then Snake1Zone
         else Snake2Zone)"

definition zonePositions :: "GameState \<Rightarrow> Zone \<Rightarrow> Position list" where
  "zonePositions gs z =
     filter (\<lambda>pos. pos \<notin> set (occupied gs) \<and>
                   zoneOf (GetHead (fst (Snakes gs))) (GetHead (snd (Snakes gs))) pos = z)
            (gridCells gs)"

definition zoneAppleCount :: "GameState \<Rightarrow> Zone \<Rightarrow> nat" where
  "zoneAppleCount gs z =
     length (filter (\<lambda>apple. zoneOf (GetHead (fst (Snakes gs))) (GetHead (snd (Snakes gs)))
                                   (applePos apple) = z)
                    (Apples gs))"

text \<open>
  The zone selection and its fallback. The neutral apple count is computed by the source
  and takes no part in the choice.
\<close>

definition selectedPositions :: "GameState \<Rightarrow> Position list" where
  "selectedPositions gs =
     (let snake1Positions = zonePositions gs Snake1Zone;
          snake2Positions = zonePositions gs Snake2Zone;
          neutralPositions = zonePositions gs Neutral;
          snake1AppleCount = zoneAppleCount gs Snake1Zone;
          snake2AppleCount = zoneAppleCount gs Snake2Zone;
          selected =
            (if snake2AppleCount < snake1AppleCount \<and> length snake2Positions > 0
             then snake2Positions
             else if snake1AppleCount < snake2AppleCount \<and> length snake1Positions > 0
             then snake1Positions
             else neutralPositions)
      in if length selected = 0 then
           (if length neutralPositions > 0 then neutralPositions
            else if length snake1Positions > 0 then snake1Positions
            else if length snake2Positions > 0 then snake2Positions
            else selected)
         else selected)"

definition appleTypeOf :: "nat \<Rightarrow> AppleType" where
  "appleTypeOf r =
     (if r < 60 then AppleNormal
      else if r < 75 then AppleGod
      else if r < 90 then AppleSpeed
      else if r < 95 then AppleSleep
      else ApplePoison)"

definition SpawnApple :: "GameState \<Rightarrow> rng \<Rightarrow> GameState \<times> rng" where
  "SpawnApple gs g =
     (let selected = selectedPositions gs in
      if length selected > 0 then
        (let (randomIndex, g1) = Intn g (length selected);
             pos = selected ! randomIndex;
             (r, g2) = Intn g1 100
         in (gs\<lparr>Apples := Apples gs @ [\<lparr>Apple_X = X pos, Apple_Y = Y pos,
                                          Apple_Type = appleTypeOf r\<rparr>]\<rparr>, g2))
      else (gs, g))"

section \<open>Turn processing\<close>

definition checkGameOver :: "GameState \<Rightarrow> GameState" where
  "checkGameOver gs =
     (let snake1Alive = Alive (snakeAt gs 0); snake2Alive = Alive (snakeAt gs 1) in
      if \<not> snake1Alive \<and> \<not> snake2Alive then
        (if Length (snakeAt gs 0) > Length (snakeAt gs 1) then gs\<lparr>Winner := 1, GameOver := True\<rparr>
         else if Length (snakeAt gs 1) > Length (snakeAt gs 0) then gs\<lparr>Winner := 2, GameOver := True\<rparr>
         else gs\<lparr>Winner := 0, GameOver := True\<rparr>)
      else if \<not> snake1Alive then gs\<lparr>Winner := 2, GameOver := True\<rparr>
      else if \<not> snake2Alive then gs\<lparr>Winner := 1, GameOver := True\<rparr>
      else gs)"

text \<open>Tail duplication: \<^verbatim>\<open>n\<close> copies of the last cell, when there is one.\<close>

definition growTail :: "Position list \<Rightarrow> nat \<Rightarrow> Position list" where
  "growTail body n = (if length body > 0 then body @ replicate n (last body) else body)"

definition ApplyAppleEffect :: "GameState \<Rightarrow> int \<Rightarrow> AppleType \<Rightarrow> GameState" where
  "ApplyAppleEffect gs snakeID appleType =
     (let snake = snakeAt gs (snakeID - 1);
          otherSnakeID = 3 - snakeID;
          otherSnake = snakeAt gs (otherSnakeID - 1);
          snake = snake\<lparr>Energy := 60\<rparr>
      in if appleType = AppleNormal then
           setSnake gs (snakeID - 1)
             (snake\<lparr>Length := Length snake + 1, Score := Score snake + 1,
                    Body := growTail (Body snake) 1\<rparr>)
         else if appleType = AppleGod then
           setSnake gs (snakeID - 1)
             (snake\<lparr>Length := Length snake + 3, Score := Score snake + 3,
                    Body := growTail (Body snake) 3\<rparr>)
         else if appleType = AppleSpeed then
           setSnake gs (snakeID - 1)
             (snake\<lparr>Length := Length snake + 1, Score := Score snake + 1, SpeedTurns := 5,
                    Body := growTail (Body snake) 1\<rparr>)
         else if appleType = AppleSleep then
           setSnake (setSnake gs (otherSnakeID - 1) (otherSnake\<lparr>SleepTurns := 5\<rparr>)) (snakeID - 1)
             (snake\<lparr>Length := Length snake + 1, Score := Score snake + 1,
                    Body := growTail (Body snake) 1\<rparr>)
         else if appleType = ApplePoison then
           (let snake = (if Length snake > 1
                         then snake\<lparr>Length := Length snake - 1,
                                    Body := (if length (Body snake) > 0 then butlast (Body snake)
                                             else Body snake)\<rparr>
                         else snake);
                snake = (if Score snake > 0 then snake\<lparr>Score := Score snake - 1\<rparr> else snake)
            in setSnake gs (snakeID - 1) snake)
         else setSnake gs (snakeID - 1) snake)"

text \<open>Lines 481 to 486 of ProcessTurn: the moves of one sub-step.\<close>

definition moveSnakes ::
  "GameState \<Rightarrow> Direction \<Rightarrow> Direction \<Rightarrow> int \<Rightarrow> int \<Rightarrow> int \<Rightarrow> GameState" where
  "moveSnakes gs move1 move2 moveCount movesToMake1 movesToMake2 =
     (let gs = (if SleepTurns (snakeAt gs 0) \<le> 0 \<and> moveCount < movesToMake1
                then setSnake gs 0 (Move (snakeAt gs 0) move1 False) else gs)
      in if SleepTurns (snakeAt gs 1) \<le> 0 \<and> moveCount < movesToMake2
         then setSnake gs 1 (Move (snakeAt gs 1) move2 False) else gs)"

text \<open>Lines 489 and 490: the two collision checks, snake 1 first.\<close>

definition checkCollisions :: "GameState \<Rightarrow> GameState \<times> bool \<times> bool" where
  "checkCollisions gs =
     (let (gs, collision1) = CheckCollision gs 1;
          (gs, collision2) = CheckCollision gs 2
      in (gs, collision1, collision2))"

text \<open>Lines 493 to 518: the head-to-head resolution.\<close>

definition headToHead :: "GameState \<times> bool \<times> bool \<Rightarrow> GameState \<times> bool \<times> bool" where
  "headToHead st =
     (let (gs, collision1, collision2) = st in
      if Alive (snakeAt gs 0) \<and> Alive (snakeAt gs 1) then
        (let head1 = GetHead (snakeAt gs 0); head2 = GetHead (snakeAt gs 1) in
         if X head1 = X head2 \<and> Y head1 = Y head2 then
           (if Length (snakeAt gs 0) > Length (snakeAt gs 1) then
              (setSnake gs 1 (kill (snakeAt gs 1) ''head-to-head''), collision1, True)
            else if Length (snakeAt gs 1) > Length (snakeAt gs 0) then
              (setSnake gs 0 (kill (snakeAt gs 0) ''head-to-head''), True, collision2)
            else
              (setSnake (setSnake gs 0 (kill (snakeAt gs 0) ''head-to-head'')) 1
                 (kill (snakeAt gs 1) ''head-to-head''), True, True))
         else st)
      else st)"

text \<open>One pass through the body of the loop: the state, and whether the loop breaks.\<close>

definition subStep ::
  "GameState \<Rightarrow> Direction \<Rightarrow> Direction \<Rightarrow> int \<Rightarrow> int \<Rightarrow> int \<Rightarrow> GameState \<times> bool" where
  "subStep gs move1 move2 moveCount movesToMake1 movesToMake2 =
     (let (gs, collision1, collision2) =
            headToHead (checkCollisions (moveSnakes gs move1 move2 moveCount movesToMake1 movesToMake2))
      in (gs, collision1 \<or> collision2))"

function moveLoop ::
  "GameState \<Rightarrow> Direction \<Rightarrow> Direction \<Rightarrow> int \<Rightarrow> int \<Rightarrow> int \<Rightarrow> int \<Rightarrow> GameState" where
  "moveLoop gs move1 move2 moveCount maxMoves movesToMake1 movesToMake2 =
     (if moveCount < maxMoves then
        (if snd (subStep gs move1 move2 moveCount movesToMake1 movesToMake2)
         then fst (subStep gs move1 move2 moveCount movesToMake1 movesToMake2)
         else moveLoop (fst (subStep gs move1 move2 moveCount movesToMake1 movesToMake2))
                move1 move2 (moveCount + 1) maxMoves movesToMake1 movesToMake2)
      else gs)"
  by pat_completeness auto
termination
  by (relation "measure (\<lambda>(gs, move1, move2, moveCount, maxMoves, m1, m2). nat (maxMoves - moveCount))")
     auto

text \<open>Lines 460 to 523: the turn counter and the movement loop.\<close>

definition movePhase :: "GameState \<Rightarrow> Direction \<Rightarrow> Direction \<Rightarrow> GameState" where
  "movePhase gs move1 move2 =
     (let gs = gs\<lparr>Turn := Turn gs + 1\<rparr>;
          movesToMake1 = (if SpeedTurns (snakeAt gs 0) > 0 then 2 else 1);
          movesToMake2 = (if SpeedTurns (snakeAt gs 1) > 0 then 2 else 1);
          maxMoves = (if movesToMake2 > movesToMake1 then movesToMake2 else movesToMake1)
      in moveLoop gs move1 move2 0 maxMoves movesToMake1 movesToMake2)"

text \<open>
  Lines 530 to 546 for one snake: the apple under its head, the effect, the replacement
  apple. The flag says whether the snake ate.
\<close>

definition eatPhase :: "GameState \<Rightarrow> int \<Rightarrow> rng \<Rightarrow> GameState \<times> bool \<times> rng" where
  "eatPhase gs snakeID g =
     (if Alive (snakeAt gs (snakeID - 1)) then
        (let (gs1, eaten, appleType) = CheckAppleEaten gs snakeID in
         if eaten then
           (let (gs2, g') = SpawnApple (ApplyAppleEffect gs1 snakeID appleType) g
            in (gs2, True, g'))
         else (gs1, False, g))
      else (gs, False, g))"

text \<open>Lines 549 to 560 for one snake.\<close>

definition tickTimers :: "Snake \<Rightarrow> Snake" where
  "tickTimers s =
     (let s = (if SpeedTurns s > 0 then s\<lparr>SpeedTurns := SpeedTurns s - 1\<rparr> else s)
      in if SleepTurns s > 0 then s\<lparr>SleepTurns := SleepTurns s - 1\<rparr> else s)"

text \<open>Lines 563 to 576 for one snake.\<close>

definition depleteEnergy :: "Snake \<Rightarrow> bool \<Rightarrow> Snake" where
  "depleteEnergy s ateApple =
     (if Alive s \<and> \<not> ateApple then
        (let s = s\<lparr>Energy := Energy s - 1\<rparr>
         in if Energy s \<le> 0 then s\<lparr>Alive := False, DeathReason := ''hunger''\<rparr> else s)
      else s)"

definition ProcessTurn :: "GameState \<Rightarrow> Direction \<Rightarrow> Direction \<Rightarrow> rng \<Rightarrow> GameState \<times> rng" where
  "ProcessTurn gs move1 move2 g =
     (let gs = movePhase gs move1 move2;
          (gs, snake1AteApple, g) = eatPhase gs 1 g;
          (gs, snake2AteApple, g) = eatPhase gs 2 g;
          gs = setSnake gs 0 (tickTimers (snakeAt gs 0));
          gs = setSnake gs 1 (tickTimers (snakeAt gs 1));
          gs = setSnake gs 0 (depleteEnergy (snakeAt gs 0) snake1AteApple);
          gs = setSnake gs 1 (depleteEnergy (snakeAt gs 1) snake2AteApple)
      in (checkGameOver gs, g))"

section \<open>The replay snapshot\<close>

text \<open>
  Clone builds every object anew. The \<^verbatim>\<open>Map\<close> literal names \<^verbatim>\<open>Obstacles\<close> only, so
  the copy's \<^verbatim>\<open>Width\<close> and \<^verbatim>\<open>Height\<close> hold Go's zero value.
\<close>

definition cloneSnake :: "Snake \<Rightarrow> Snake" where
  "cloneSnake s =
     \<lparr>ID = ID s, Body = Body s, Direction = Direction s, Alive = Alive s, Length = Length s,
      Score = Score s, SpeedTurns = SpeedTurns s, SleepTurns = SleepTurns s,
      Energy = Energy s, DeathReason = DeathReason s\<rparr>"

definition Clone :: "GameState \<Rightarrow> GameState" where
  "Clone gs =
     \<lparr>Turn = Turn gs, GridWidth = GridWidth gs, GridHeight = GridHeight gs,
      Snakes = (cloneSnake (fst (Snakes gs)), cloneSnake (snd (Snakes gs))),
      Apples = Apples gs,
      Map = (case Map gs of None \<Rightarrow> None
             | Some m \<Rightarrow> Some \<lparr>Width = 0, Height = 0, Obstacles = Obstacles m\<rparr>),
      Winner = Winner gs, GameOver = GameOver gs\<rparr>"

section \<open>The agent handle (engine/process.go)\<close>

text \<open>
  Strings are byte lists, as in Go. The agent handle calls three functions of Go's
  standard library. \<^verbatim>\<open>json.Unmarshal\<close> into the one-field response struct is a
  parameter: \<open>None\<close> when it returns an error, otherwise the \<^verbatim>\<open>Move\<close> field it leaves
  in the struct. \<^verbatim>\<open>strings.ToUpper\<close> and \<^verbatim>\<open>strings.TrimSpace\<close> are written out for
  strings of ASCII bytes, where the letters a to z are raised and the white space is tab,
  line feed, vertical tab, form feed, carriage return and space. On a string with a byte
  from 128 up the library decodes UTF-8 and consults the Unicode tables (U+017F is raised
  to S, U+00A0 is white space); what it returns on such strings is a parameter.
\<close>

record GoLib =
  jsonUnmarshal :: "string \<Rightarrow> string option"
  unicodeToUpper :: "string \<Rightarrow> string"
  unicodeTrimSpace :: "string \<Rightarrow> string"

definition isASCII :: "string \<Rightarrow> bool" where
  "isASCII s = list_all (\<lambda>c. (of_char c :: nat) < 128) s"

definition asciiSpace :: "char \<Rightarrow> bool" where
  "asciiSpace c = ((of_char c :: nat) \<in> {9, 10, 11, 12, 13, 32})"

definition asciiTrimSpace :: "string \<Rightarrow> string" where
  "asciiTrimSpace s = rev (dropWhile asciiSpace (rev (dropWhile asciiSpace s)))"

definition TrimSpace :: "GoLib \<Rightarrow> string \<Rightarrow> string" where
  "TrimSpace lib s = (if isASCII s then asciiTrimSpace s else unicodeTrimSpace lib s)"

definition asciiUpper :: "char \<Rightarrow> char" where
  "asciiUpper c =
     (if 97 \<le> (of_char c :: nat) \<and> (of_char c :: nat) \<le> 122
      then char_of ((of_char c :: nat) - 32) else c)"

definition asciiToUpper :: "string \<Rightarrow> string" where
  "asciiToUpper s = map asciiUpper s"

definition ToUpper :: "GoLib \<Rightarrow> string \<Rightarrow> string" where
  "ToUpper lib s = (if isASCII s then asciiToUpper s else unicodeToUpper lib s)"

definition parseMove :: "GoLib \<Rightarrow> string \<Rightarrow> Direction" where
  "parseMove lib moveStr =
     (let moveStr = ToUpper lib (TrimSpace lib moveStr) in
      if moveStr = ''UP'' \<or> moveStr = ''U'' \<or> moveStr = ''W'' then DirectionUp
      else if moveStr = ''DOWN'' \<or> moveStr = ''D'' \<or> moveStr = ''S'' then DirectionDown
      else if moveStr = ''LEFT'' \<or> moveStr = ''L'' \<or> moveStr = ''A'' then DirectionLeft
      else if moveStr = ''RIGHT'' \<or> moveStr = ''R'' then DirectionRight
      else DirectionUp)"

text \<open>Lines 230 to 242 of GetMove, for a line the scanner has read.\<close>

definition parseResponseLine :: "GoLib \<Rightarrow> string \<Rightarrow> Direction" where
  "parseResponseLine lib text =
     (let line = TrimSpace lib text;
          responseMove = (case jsonUnmarshal lib line of
                            None \<Rightarrow> ToUpper lib line | Some m \<Rightarrow> m)
      in parseMove lib responseMove)"

record BotPlayer =
  BotPlayer_ID :: int
  isRunning :: bool
  timeoutCount :: int
  errorCount :: int

datatype MoveError = NotRunning | SerializeFailed | WriteFailed | ReadFailed | BotTimeout

record MoveResponse =
  Response_Move :: Direction
  Timeout :: bool
  Error :: "MoveError option"
  TimeTaken :: int

definition getDefaultMove :: "BotPlayer \<Rightarrow> GameState \<Rightarrow> Direction" where
  "getDefaultMove bp gameState = Direction (snakeAt gameState (BotPlayer_ID bp - 1))"

text \<open>The snake order of the copy ToJSON serialises for bot \<^verbatim>\<open>botID\<close>.\<close>

definition stateForBot :: "GameState \<Rightarrow> int \<Rightarrow> GameState" where
  "stateForBot gs botID =
     (if botID = 2 then gs\<lparr>Snakes := (snakeAt gs 1, snakeAt gs 0)\<rparr> else gs)"

text \<open>
  What the process and the clock do during one request is an input of the model: the
  serialisation or the write fails, the scanner yields a line after some time or fails,
  or the \<^verbatim>\<open>select\<close> takes the case of the context that is done (the deadline has
  elapsed before a response arrived).
\<close>

datatype TurnIO =
  SerializeFails | WriteFails | LineRead string int | ScanFails | DeadlineElapsed

definition GetMove ::
  "BotPlayer \<Rightarrow> GameState \<Rightarrow> int \<Rightarrow> GoLib \<Rightarrow> TurnIO \<Rightarrow> MoveResponse \<times> BotPlayer" where
  "GetMove bp gameState timeout lib io =
     (if \<not> isRunning bp then
        (\<lparr>Response_Move = getDefaultMove bp gameState, Timeout = False,
          Error = Some NotRunning, TimeTaken = 0\<rparr>, bp)
      else
        (case io of
           SerializeFails \<Rightarrow>
             (\<lparr>Response_Move = getDefaultMove bp gameState, Timeout = False,
               Error = Some SerializeFailed, TimeTaken = 0\<rparr>,
              bp\<lparr>errorCount := errorCount bp + 1\<rparr>)
         | WriteFails \<Rightarrow>
             (\<lparr>Response_Move = getDefaultMove bp gameState, Timeout = False,
               Error = Some WriteFailed, TimeTaken = 0\<rparr>, bp)
         | LineRead text elapsed \<Rightarrow>
             (\<lparr>Response_Move = parseResponseLine lib text, Timeout = False,
               Error = None, TimeTaken = elapsed\<rparr>, bp)
         | ScanFails \<Rightarrow>
             (\<lparr>Response_Move = getDefaultMove bp gameState, Timeout = False,
               Error = Some ReadFailed, TimeTaken = 0\<rparr>, bp)
         | DeadlineElapsed \<Rightarrow>
             (\<lparr>Response_Move = getDefaultMove bp gameState, Timeout = True,
               Error = Some BotTimeout, TimeTaken = timeout\<rparr>,
              bp\<lparr>timeoutCount := timeoutCount bp + 1\<rparr>)))"

section \<open>Example states\<close>

definition reversal_snake :: Snake where
  "reversal_snake =
     \<lparr>ID = 1, Body = [\<lparr>X = 3, Y = 4\<rparr>, \<lparr>X = 3, Y = 5\<rparr>, \<lparr>X = 3, Y = 6\<rparr>],
      Direction = DirectionUp, Alive = True, Length = 3, Score = 0, SpeedTurns = 0,
      SleepTurns = 0, Energy = 60, DeathReason = ''''\<rparr>"

text \<open>A snake that two POISON apples have shrunk to its head.\<close>

definition short_snake :: Snake where
  "short_snake =
     \<lparr>ID = 1, Body = [\<lparr>X = 3, Y = 4\<rparr>], Direction = DirectionUp, Alive = True, Length = 1,
      Score = 0, SpeedTurns = 0, SleepTurns = 0, Energy = 60, DeathReason = ''''\<rparr>"

text \<open>
  The two snakes as NewGameState places them on a 20 by 20 grid, and a board with the
  three first apples and a map of one obstacle.
\<close>

definition start_snake1 :: Snake where
  "start_snake1 =
     \<lparr>ID = 1, Body = [\<lparr>X = 1, Y = 2\<rparr>, \<lparr>X = 1, Y = 1\<rparr>, \<lparr>X = 1, Y = 0\<rparr>],
      Direction = DirectionDown, Alive = True, Length = 3, Score = 0, SpeedTurns = 0,
      SleepTurns = 0, Energy = 60, DeathReason = ''''\<rparr>"

definition start_snake2 :: Snake where
  "start_snake2 =
     \<lparr>ID = 2, Body = [\<lparr>X = 18, Y = 17\<rparr>, \<lparr>X = 18, Y = 18\<rparr>, \<lparr>X = 18, Y = 19\<rparr>],
      Direction = DirectionUp, Alive = True, Length = 3, Score = 0, SpeedTurns = 0,
      SleepTurns = 0, Energy = 60, DeathReason = ''''\<rparr>"

definition map_state :: GameState where
  "map_state =
     \<lparr>Turn = 0, GridWidth = 20, GridHeight = 20, Snakes = (start_snake1, start_snake2),
      Apples = [\<lparr>Apple_X = 10, Apple_Y = 10, Apple_Type = AppleNormal\<rparr>,
                \<lparr>Apple_X = 9, Apple_Y = 9, Apple_Type = AppleGod\<rparr>,
                \<lparr>Apple_X = 12, Apple_Y = 8, Apple_Type = AppleNormal\<rparr>],
      Map = Some \<lparr>Width = 20, Height = 20, Obstacles = [\<lparr>X = 5, Y = 5\<rparr>]\<rparr>,
      Winner = 0, GameOver = False\<rparr>"

text \<open>
  A library for the examples. It decodes the one JSON line the examples use and has the
  answers of Go's library on the two strings with bytes from 128 up that they use:
  U+017F (bytes C5 BF) is raised to S, and the no-break space U+00A0 (bytes C2 A0) is
  trimmed from the front of the word down.
\<close>

definition long_s_line :: string where
  "long_s_line = [CHR 0xC5, CHR 0xBF]"

definition nbsp_down_line :: string where
  "nbsp_down_line = [CHR 0xC2, CHR 0xA0, CHR ''d'', CHR ''o'', CHR ''w'', CHR ''n'']"

definition sample_lib :: GoLib where
  "sample_lib =
     \<lparr>jsonUnmarshal = (\<lambda>l. if l = ''{\"move\":\"right\"}'' then Some ''right'' else None),
      unicodeToUpper = (\<lambda>s. if s = long_s_line then ''S'' else s),
      unicodeTrimSpace = (\<lambda>s. if s = nbsp_down_line then ''down'' else s)\<rparr>"

text \<open>The handle of bot 2, running, and the handle of bot 1 after Stop.\<close>

definition bot2 :: BotPlayer where
  "bot2 = \<lparr>BotPlayer_ID = 2, isRunning = True, timeoutCount = 0, errorCount = 0\<rparr>"

definition bot1_stopped :: BotPlayer where
  "bot1_stopped = \<lparr>BotPlayer_ID = 1, isRunning = False, timeoutCount = 3, errorCount = 0\<rparr>"

text \<open>
  The board inside NewGameState(20, 20, nil) after the first of its three SpawnApple
  calls: the first apple always lands in the neutral zone, here on (10, 10).
\<close>

definition one_apple_state :: GameState where
  "one_apple_state =
     \<lparr>Turn = 0, GridWidth = 20, GridHeight = 20, Snakes = (start_snake1, start_snake2),
      Apples = [\<lparr>Apple_X = 10, Apple_Y = 10, Apple_Type = AppleNormal\<rparr>],
      Map = None, Winner = 0, GameOver = False\<rparr>"

text \<open>A grid of two cells, one under each snake.\<close>

definition full_state :: GameState where
  "full_state =
     \<lparr>Turn = 7, GridWidth = 2, GridHeight = 1,
      Snakes =
        (\<lparr>ID = 1, Body = [\<lparr>X = 0, Y = 0\<rparr>], Direction = DirectionLeft, Alive = True,
          Length = 1, Score = 0, SpeedTurns = 0, SleepTurns = 0, Energy = 60,
          DeathReason = ''''\<rparr>,
         \<lparr>ID = 2, Body = [\<lparr>X = 1, Y = 0\<rparr>], Direction = DirectionRight, Alive = True,
          Length = 1, Score = 0, SpeedTurns = 0, SleepTurns = 0, Energy = 60,
          DeathReason = ''''\<rparr>),
      Apples = [], Map = None, Winner = 0, GameOver = False\<rparr>"

text \<open>
  Boards of 10 by 10. In \<open>speed_state\<close> snake 1 has three speed turns left and both
  snakes have room ahead. In \<open>speed_wall_state\<close> snake 2 instead faces the right wall.
\<close>

definition speed_state :: GameState where
  "speed_state =
     \<lparr>Turn = 12, GridWidth = 10, GridHeight = 10,
      Snakes =
        (\<lparr>ID = 1, Body = [\<lparr>X = 2, Y = 2\<rparr>, \<lparr>X = 1, Y = 2\<rparr>, \<lparr>X = 0, Y = 2\<rparr>, \<lparr>X = 0, Y = 3\<rparr>],
          Direction = DirectionRight, Alive = True, Length = 4, Score = 1, SpeedTurns = 3,
          SleepTurns = 0, Energy = 59, DeathReason = ''''\<rparr>,
         \<lparr>ID = 2, Body = [\<lparr>X = 7, Y = 7\<rparr>, \<lparr>X = 8, Y = 7\<rparr>, \<lparr>X = 9, Y = 7\<rparr>],
          Direction = DirectionLeft, Alive = True, Length = 3, Score = 0, SpeedTurns = 0,
          SleepTurns = 0, Energy = 48, DeathReason = ''''\<rparr>),
      Apples = [\<lparr>Apple_X = 5, Apple_Y = 5, Apple_Type = AppleNormal\<rparr>,
                \<lparr>Apple_X = 0, Apple_Y = 9, Apple_Type = AppleGod\<rparr>,
                \<lparr>Apple_X = 9, Apple_Y = 0, Apple_Type = AppleNormal\<rparr>],
      Map = None, Winner = 0, GameOver = False\<rparr>"

definition speed_wall_state :: GameState where
  "speed_wall_state =
     \<lparr>Turn = 12, GridWidth = 10, GridHeight = 10,
      Snakes =
        (\<lparr>ID = 1, Body = [\<lparr>X = 2, Y = 2\<rparr>, \<lparr>X = 1, Y = 2\<rparr>, \<lparr>X = 0, Y = 2\<rparr>, \<lparr>X = 0, Y = 3\<rparr>],
          Direction = DirectionRight, Alive = True, Length = 4, Score = 1, SpeedTurns = 3,
          SleepTurns = 0, Energy = 59, DeathReason = ''''\<rparr>,
         \<lparr>ID = 2, Body = [\<lparr>X = 9, Y = 7\<rparr>, \<lparr>X = 8, Y = 7\<rparr>, \<lparr>X = 7, Y = 7\<rparr>],
          Direction = DirectionRight, Alive = True, Length = 3, Score = 0, SpeedTurns = 0,
          SleepTurns = 0, Energy = 48, DeathReason = ''''\<rparr>),
      Apples = [\<lparr>Apple_X = 5, Apple_Y = 5, Apple_Type = AppleNormal\<rparr>,
                \<lparr>Apple_X = 0, Apple_Y = 9, Apple_Type = AppleGod\<rparr>,
                \<lparr>Apple_X = 9, Apple_Y = 0, Apple_Type = AppleNormal\<rparr>],
      Map = None, Winner = 0, GameOver = False\<rparr>"

text \<open>
  Two snakes one cell apart on a row of a 7 by 7 board, heading for the cell between
  them; snake 2 is the longer. \<open>duel_moved\<close> is the board after both have moved.
\<close>

definition duel_state :: GameState where
  "duel_state =
     \<lparr>Turn = 30, GridWidth = 7, GridHeight = 7,
      Snakes =
        (\<lparr>ID = 1, Body = [\<lparr>X = 2, Y = 3\<rparr>, \<lparr>X = 1, Y = 3\<rparr>, \<lparr>X = 0, Y = 3\<rparr>],
          Direction = DirectionRight, Alive = True, Length = 3, Score = 0, SpeedTurns = 0,
          SleepTurns = 0, Energy = 30, DeathReason = ''''\<rparr>,
         \<lparr>ID = 2, Body = [\<lparr>X = 4, Y = 3\<rparr>, \<lparr>X = 5, Y = 3\<rparr>, \<lparr>X = 6, Y = 3\<rparr>, \<lparr>X = 6, Y = 4\<rparr>],
          Direction = DirectionLeft, Alive = True, Length = 4, Score = 1, SpeedTurns = 0,
          SleepTurns = 0, Energy = 41, DeathReason = ''''\<rparr>),
      Apples = [\<lparr>Apple_X = 0, Apple_Y = 0, Apple_Type = AppleGod\<rparr>,
                \<lparr>Apple_X = 3, Apple_Y = 6, Apple_Type = AppleNormal\<rparr>,
                \<lparr>Apple_X = 5, Apple_Y = 1, Apple_Type = ApplePoison\<rparr>],
      Map = None, Winner = 0, GameOver = False\<rparr>"

definition duel_moved :: GameState where
  "duel_moved =
     \<lparr>Turn = 30, GridWidth = 7, GridHeight = 7,
      Snakes =
        (\<lparr>ID = 1, Body = [\<lparr>X = 3, Y = 3\<rparr>, \<lparr>X = 2, Y = 3\<rparr>, \<lparr>X = 1, Y = 3\<rparr>],
          Direction = DirectionRight, Alive = True, Length = 3, Score = 0, SpeedTurns = 0,
          SleepTurns = 0, Energy = 30, DeathReason = ''''\<rparr>,
         \<lparr>ID = 2, Body = [\<lparr>X = 3, Y = 3\<rparr>, \<lparr>X = 4, Y = 3\<rparr>, \<lparr>X = 5, Y = 3\<rparr>, \<lparr>X = 6, Y = 3\<rparr>],
          Direction = DirectionLeft, Alive = True, Length = 4, Score = 1, SpeedTurns = 0,
          SleepTurns = 0, Energy = 41, DeathReason = ''''\<rparr>),
      Apples = [\<lparr>Apple_X = 0, Apple_Y = 0, Apple_Type = AppleGod\<rparr>,
                \<lparr>Apple_X = 3, Apple_Y = 6, Apple_Type = AppleNormal\<rparr>,
                \<lparr>Apple_X = 5, Apple_Y = 1, Apple_Type = ApplePoison\<rparr>],
      Map = None, Winner = 0, GameOver = False\<rparr>"

text \<open>
  A 5 by 5 board on which snake 1 is dead (its bot has stopped) and snake 2 is one cell
  from a SLEEP apple.
\<close>

definition sleep_state :: GameState where
  "sleep_state =
     \<lparr>Turn = 40, GridWidth = 5, GridHeight = 5,
      Snakes =
        (\<lparr>ID = 1, Body = [\<lparr>X = 0, Y = 1\<rparr>, \<lparr>X = 0, Y = 0\<rparr>],
          Direction = DirectionDown, Alive = False, Length = 2, Score = 0, SpeedTurns = 2,
          SleepTurns = 0, Energy = 20, DeathReason = ''''\<rparr>,
         \<lparr>ID = 2, Body = [\<lparr>X = 2, Y = 2\<rparr>, \<lparr>X = 1, Y = 2\<rparr>],
          Direction = DirectionRight, Alive = True, Length = 2, Score = 0, SpeedTurns = 0,
          SleepTurns = 0, Energy = 20, DeathReason = ''''\<rparr>),
      Apples = [\<lparr>Apple_X = 4, Apple_Y = 4, Apple_Type = AppleNormal\<rparr>,
                \<lparr>Apple_X = 3, Apple_Y = 2, Apple_Type = AppleSleep\<rparr>,
                \<lparr>Apple_X = 0, Apple_Y = 4, Apple_Type = AppleGod\<rparr>],
      Map = None, Winner = 0, GameOver = False\<rparr>"

section \<open>Notions used in the proofs\<close>

text \<open>
  \<open>dimmed s s'\<close>: the snake \<open>s'\<close> is \<open>s\<close>, or \<open>s\<close> was alive and \<open>s'\<close> is \<open>s\<close> killed
  for some reason. \<open>lifeStep gs gs'\<close>: the state \<open>gs'\<close> is \<open>gs\<close> with each snake
  dimmed. The collision checks and the head-to-head resolution are such steps.
\<close>

definition dimmed :: "Snake \<Rightarrow> Snake \<Rightarrow> bool" where
  "dimmed s s' \<longleftrightarrow> s' = s \<or> (Alive s \<and> (\<exists>r. s' = kill s r))"

definition lifeStep :: "GameState \<Rightarrow> GameState \<Rightarrow> bool" where
  "lifeStep gs gs' \<longleftrightarrow>
     (\<exists>a b. gs' = gs\<lparr>Snakes := (a, b)\<rparr> \<and> dimmed (fst (Snakes gs)) a \<and> dimmed (snd (Snakes gs)) b)"

text \<open>The length field of each snake is the length of its body.\<close>

definition lengthsAgree :: "GameState \<Rightarrow> bool" where
  "lengthsAgree gs \<longleftrightarrow>
     Length (snakeAt gs 0) = int (length (Body (snakeAt gs 0))) \<and>
     Length (snakeAt gs 1) = int (length (Body (snakeAt gs 1)))"

text \<open>
  The living snake \<open>i\<close> has an apple of type SLEEP as the first apple under its head.
\<close>

definition sleepHit :: "GameState \<Rightarrow> int \<Rightarrow> bool" where
  "sleepHit gs i \<longleftrightarrow>
     Alive (snakeAt gs i) \<and>
     map_option fst (eatFirst (GetHead (snakeAt gs i)) (Apples gs)) = Some AppleSleep"

section \<open>Properties of Move\<close>

lemma Move_alive_unfold:
  "Alive s \<Longrightarrow> Move s newDirection grow =
     (let d = (if isNot180 s newDirection then newDirection else Direction s);
          newHead = getNextPosition (GetHead s) d
      in if grow then s\<lparr>Direction := d, Body := newHead # Body s, Length := Length s + 1\<rparr>
         else s\<lparr>Direction := d, Body := butlast (newHead # Body s)\<rparr>)"
  by (simp add: Move_def Let_def GetHead_def)

text \<open>
  C3 (amended). For every living snake whose body has at least two segments, requesting
  the direction opposite to its current direction leaves the direction unchanged, and
  the snake advances one cell in its current direction: the new head is the cell next to
  the old head in that direction, followed by the old body (without its last cell unless
  the snake grows).
\<close>

theorem Move_rejects_reversal:
  assumes "Alive s" and "2 \<le> length (Body s)"
  shows "Direction (Move s (opposite (Direction s)) grow) = Direction s \<and>
         GetHead (Move s (opposite (Direction s)) grow) =
           getNextPosition (GetHead s) (Direction s) \<and>
         Body (Move s (opposite (Direction s)) grow) =
           getNextPosition (GetHead s) (Direction s) #
             (if grow then Body s else butlast (Body s))"
proof -
  have "\<not> isNot180 s (opposite (Direction s))"
    using assms(2) by (simp add: isNot180_def)
  moreover have "Body s \<noteq> []"
    using assms(2) by auto
  ultimately show ?thesis
    using assms(1) by (simp add: Move_alive_unfold GetHead_def)
qed

theorem Move_rejects_reversal_witness:
  "Alive reversal_snake \<and> 2 \<le> length (Body reversal_snake) \<and>
   Direction (Move reversal_snake DirectionDown False) = DirectionUp \<and>
   Body (Move reversal_snake DirectionDown False) =
     [\<lparr>X = 3, Y = 3\<rparr>, \<lparr>X = 3, Y = 4\<rparr>, \<lparr>X = 3, Y = 5\<rparr>]"
proof -
  have a: "Alive reversal_snake" and b: "2 \<le> length (Body reversal_snake)"
    by (simp_all add: reversal_snake_def)
  have o: "opposite (Direction reversal_snake) = DirectionDown"
    by (simp add: reversal_snake_def opposite_def)
  from Move_rejects_reversal [OF a b, of False] a b show ?thesis
    unfolding o by (simp add: reversal_snake_def GetHead_def getNextPosition_def)
qed

text \<open>
  C3 as stated fails for a snake of one segment: isNot180 accepts every request when
  the body is shorter than two, so the snake heading UP turns DOWN.
\<close>

theorem Move_reversal_short_snake_counterexample:
  "Direction short_snake = DirectionUp \<and>
   Direction (Move short_snake (opposite (Direction short_snake)) False) = DirectionDown \<and>
   Body (Move short_snake (opposite (Direction short_snake)) False) = [\<lparr>X = 3, Y = 5\<rparr>]"
  by (simp add: short_snake_def Move_def isNot180_def opposite_def GetHead_def
      getNextPosition_def Let_def)

section \<open>Properties of Clone\<close>

lemma cloneSnake_id: "cloneSnake s = s"
  by (simp add: cloneSnake_def)

lemma Clone_eq:
  "Clone gs =
     gs\<lparr>Map := map_option (\<lambda>m. \<lparr>Width = 0, Height = 0, Obstacles = Obstacles m\<rparr>) (Map gs)\<rparr>"
  by (cases "Map gs") (simp_all add: Clone_def cloneSnake_id)

text \<open>
  C4 (the code at the failing input). Clone copies turn, grid, snakes, apples, winner and
  game-over flag, and the obstacles of the map; the map's width and height are not
  copied. On a board whose map is 20 by 20 the snapshot's map is 0 by 0, so the snapshot
  differs from the live state at the moment it is taken.
\<close>

theorem Clone_drops_map_size:
  "Map map_state = Some \<lparr>Width = 20, Height = 20, Obstacles = [\<lparr>X = 5, Y = 5\<rparr>]\<rparr> \<and>
   Map (Clone map_state) = Some \<lparr>Width = 0, Height = 0, Obstacles = [\<lparr>X = 5, Y = 5\<rparr>]\<rparr> \<and>
   Clone map_state \<noteq> map_state"
proof -
  have m: "Map map_state = Some \<lparr>Width = 20, Height = 20, Obstacles = [\<lparr>X = 5, Y = 5\<rparr>]\<rparr>"
    by (simp add: map_state_def)
  have c: "Map (Clone map_state) = Some \<lparr>Width = 0, Height = 0, Obstacles = [\<lparr>X = 5, Y = 5\<rparr>]\<rparr>"
    by (simp add: Clone_eq m)
  have "Map (Clone map_state) \<noteq> Map map_state"
    unfolding m c by simp
  then have "Clone map_state \<noteq> map_state"
    by auto
  with m c show ?thesis by simp
qed

section \<open>Properties of the agent handle\<close>

lemma asciiUpper_idem: "asciiUpper (asciiUpper c) = asciiUpper c"
  unfolding asciiUpper_def by auto

lemma asciiSpace_asciiUpper: "asciiSpace (asciiUpper c) = asciiSpace c"
  unfolding asciiUpper_def asciiSpace_def by auto

lemma asciiToUpper_idem: "asciiToUpper (asciiToUpper s) = asciiToUpper s"
  by (simp add: asciiToUpper_def asciiUpper_idem)

lemma dropWhile_asciiSpace_asciiToUpper:
  "dropWhile asciiSpace (asciiToUpper s) = asciiToUpper (dropWhile asciiSpace s)"
  by (induction s) (simp_all add: asciiToUpper_def asciiSpace_asciiUpper)

lemma asciiTrimSpace_asciiToUpper:
  "asciiTrimSpace (asciiToUpper s) = asciiToUpper (asciiTrimSpace s)"
proof -
  have "rev (asciiToUpper s) = asciiToUpper (rev s)" for s
    by (simp add: asciiToUpper_def rev_map)
  then show ?thesis
    by (simp add: asciiTrimSpace_def dropWhile_asciiSpace_asciiToUpper)
qed

lemma last_dropWhile_keep:
  "dropWhile P xs \<noteq> [] \<Longrightarrow> last (dropWhile P xs) = last xs"
  by (induction xs) (auto split: if_splits)

lemma asciiTrimSpace_idem: "asciiTrimSpace (asciiTrimSpace s) = asciiTrimSpace s"
proof -
  define a where "a = dropWhile asciiSpace s"
  define b where "b = dropWhile asciiSpace (rev a)"
  have ts: "asciiTrimSpace s = rev b"
    by (simp add: asciiTrimSpace_def a_def b_def)
  have b_self: "dropWhile asciiSpace b = b"
    unfolding b_def by (simp add: dropWhile_idem)
  have "dropWhile asciiSpace (rev b) = rev b"
  proof (cases "b = []")
    case True
    then show ?thesis by simp
  next
    case False
    then have "last b = last (rev a)"
      unfolding b_def by (rule last_dropWhile_keep)
    moreover have "rev a \<noteq> []"
      using False b_def by auto
    ultimately have "last b = hd a"
      by (simp add: last_rev)
    moreover have "\<not> asciiSpace (hd a)"
      using \<open>rev a \<noteq> []\<close> unfolding a_def by (simp add: hd_dropWhile)
    ultimately have "\<not> asciiSpace (hd (rev b))"
      using False by (simp add: hd_rev)
    then show ?thesis
      by (simp add: dropWhile_eq_self_iff)
  qed
  then have "asciiTrimSpace (rev b) = rev b"
    by (simp add: asciiTrimSpace_def b_self)
  then show ?thesis
    by (simp add: ts)
qed

lemma isASCII_asciiTrimSpace: "isASCII s \<Longrightarrow> isASCII (asciiTrimSpace s)"
proof -
  assume a: "isASCII s"
  have d: "set (dropWhile asciiSpace xs) \<subseteq> set xs" for xs
    by (auto dest: set_dropWhileD)
  have "set (asciiTrimSpace s) = set (dropWhile asciiSpace (rev (dropWhile asciiSpace s)))"
    by (simp add: asciiTrimSpace_def)
  also have "\<dots> \<subseteq> set (rev (dropWhile asciiSpace s))"
    by (rule d)
  also have "\<dots> \<subseteq> set s"
    using d by simp
  finally have "set (asciiTrimSpace s) \<subseteq> set s" .
  with a show ?thesis
    by (auto simp: isASCII_def list_all_iff)
qed

lemma asciiUpper_below: "(of_char c :: nat) < 128 \<Longrightarrow> (of_char (asciiUpper c) :: nat) < 128"
  unfolding asciiUpper_def by auto

lemma isASCII_asciiToUpper: "isASCII s \<Longrightarrow> isASCII (asciiToUpper s)"
  by (auto simp: isASCII_def asciiToUpper_def list_all_iff asciiUpper_below)

lemma TrimSpace_ascii: "isASCII s \<Longrightarrow> TrimSpace lib s = asciiTrimSpace s"
  by (simp add: TrimSpace_def)

lemma ToUpper_ascii: "isASCII s \<Longrightarrow> ToUpper lib s = asciiToUpper s"
  by (simp add: ToUpper_def)

text \<open>
  On an ASCII line, trimming and raising the raised trimmed line gives the raised
  trimmed line.
\<close>

lemma ascii_bare_token:
  assumes "isASCII text"
  shows "ToUpper lib (TrimSpace lib (ToUpper lib (TrimSpace lib text))) =
         ToUpper lib (TrimSpace lib text)"
proof -
  let ?l = "asciiTrimSpace text"
  have l: "isASCII ?l"
    using assms by (rule isASCII_asciiTrimSpace)
  then have u: "isASCII (asciiToUpper ?l)"
    by (rule isASCII_asciiToUpper)
  then have tu: "isASCII (asciiTrimSpace (asciiToUpper ?l))"
    by (rule isASCII_asciiTrimSpace)
  have "ToUpper lib (TrimSpace lib (ToUpper lib (TrimSpace lib text))) =
        asciiToUpper (asciiTrimSpace (asciiToUpper ?l))"
    using assms l u tu by (simp add: TrimSpace_ascii ToUpper_ascii)
  also have "\<dots> = asciiToUpper ?l"
    by (simp add: asciiTrimSpace_asciiToUpper asciiToUpper_idem asciiTrimSpace_idem)
  also have "\<dots> = ToUpper lib (TrimSpace lib text)"
    using assms l by (simp add: TrimSpace_ascii ToUpper_ascii)
  finally show ?thesis .
qed

lemma parseMove_alias:
  "parseMove lib tok =
     (let t = ToUpper lib (TrimSpace lib tok) in
      if t \<in> {''UP'', ''U'', ''W''} then DirectionUp
      else if t \<in> {''DOWN'', ''D'', ''S''} then DirectionDown
      else if t \<in> {''LEFT'', ''L'', ''A''} then DirectionLeft
      else if t \<in> {''RIGHT'', ''R''} then DirectionRight
      else DirectionUp)"
  unfolding parseMove_def Let_def by (simp only: insert_iff empty_iff simp_thms)

text \<open>
  C7. The direction resolved from a response line is a function of the line and of the
  library alone; the game state is not an input. The token is the decoded \<^verbatim>\<open>move\<close>
  field when the trimmed line decodes as JSON, and the raised trimmed line otherwise.
  The token, trimmed and raised to upper case by the library, resolves through the
  aliases UP/U/W, DOWN/D/S, LEFT/L/A and RIGHT/R, and every other token resolves to UP.
  This holds for every line, with the library's Unicode behaviour as it is. For a line of
  ASCII bytes that does not decode, the resolved token is the trimmed line itself raised
  to upper case.
\<close>

theorem parse_response_two_stage:
  "parseResponseLine lib text =
     (let token = (case jsonUnmarshal lib (TrimSpace lib text) of
                     Some m \<Rightarrow> m | None \<Rightarrow> ToUpper lib (TrimSpace lib text));
          t = ToUpper lib (TrimSpace lib token)
      in if t \<in> {''UP'', ''U'', ''W''} then DirectionUp
         else if t \<in> {''DOWN'', ''D'', ''S''} then DirectionDown
         else if t \<in> {''LEFT'', ''L'', ''A''} then DirectionLeft
         else if t \<in> {''RIGHT'', ''R''} then DirectionRight
         else DirectionUp) \<and>
   (isASCII text \<and> jsonUnmarshal lib (TrimSpace lib text) = None \<longrightarrow>
      parseResponseLine lib text =
        (let t = ToUpper lib (TrimSpace lib text)
         in if t \<in> {''UP'', ''U'', ''W''} then DirectionUp
            else if t \<in> {''DOWN'', ''D'', ''S''} then DirectionDown
            else if t \<in> {''LEFT'', ''L'', ''A''} then DirectionLeft
            else if t \<in> {''RIGHT'', ''R''} then DirectionRight
            else DirectionUp))"
proof (intro conjI impI)
  show "parseResponseLine lib text =
     (let token = (case jsonUnmarshal lib (TrimSpace lib text) of
                     Some m \<Rightarrow> m | None \<Rightarrow> ToUpper lib (TrimSpace lib text));
          t = ToUpper lib (TrimSpace lib token)
      in if t \<in> {''UP'', ''U'', ''W''} then DirectionUp
         else if t \<in> {''DOWN'', ''D'', ''S''} then DirectionDown
         else if t \<in> {''LEFT'', ''L'', ''A''} then DirectionLeft
         else if t \<in> {''RIGHT'', ''R''} then DirectionRight
         else DirectionUp)"
    by (cases "jsonUnmarshal lib (TrimSpace lib text)")
       (simp_all add: parseResponseLine_def parseMove_alias Let_def del: insert_iff)
next
  assume a: "isASCII text \<and> jsonUnmarshal lib (TrimSpace lib text) = None"
  then have "parseResponseLine lib text = parseMove lib (ToUpper lib (TrimSpace lib text))"
    by (simp add: parseResponseLine_def Let_def)
  then show "parseResponseLine lib text =
        (let t = ToUpper lib (TrimSpace lib text)
         in if t \<in> {''UP'', ''U'', ''W''} then DirectionUp
            else if t \<in> {''DOWN'', ''D'', ''S''} then DirectionDown
            else if t \<in> {''LEFT'', ''L'', ''A''} then DirectionLeft
            else if t \<in> {''RIGHT'', ''R''} then DirectionRight
            else DirectionUp)"
    using a by (simp add: parseMove_alias ascii_bare_token Let_def del: insert_iff)
qed

text \<open>
  The lines \<^verbatim>\<open> {"move":"right"}  \<close>, \<^verbatim>\<open>"bogus"\<close> and \<^verbatim>\<open>  left\<close>, the line of the
  single letter U+017F and the line of a no-break space before the word down: the last
  two resolve to DOWN, as they do in Go.
\<close>

theorem parse_response_two_stage_witness:
  "parseResponseLine sample_lib '' {\"move\":\"right\"}  '' = DirectionRight \<and>
   parseResponseLine sample_lib ''\"bogus\"'' = DirectionUp \<and>
   isASCII ''  left'' \<and> jsonUnmarshal sample_lib (TrimSpace sample_lib ''  left'') = None \<and>
   parseResponseLine sample_lib ''  left'' = DirectionLeft \<and>
   parseResponseLine sample_lib long_s_line = DirectionDown \<and>
   parseResponseLine sample_lib nbsp_down_line = DirectionDown"
proof -
  have t1: "jsonUnmarshal sample_lib (TrimSpace sample_lib '' {\"move\":\"right\"}  '') = Some ''right''"
    and t2: "ToUpper sample_lib (TrimSpace sample_lib ''right'') = ''RIGHT''"
    and t3: "jsonUnmarshal sample_lib (TrimSpace sample_lib ''\"bogus\"'') = None"
    and t4: "ToUpper sample_lib (TrimSpace sample_lib
               (ToUpper sample_lib (TrimSpace sample_lib ''\"bogus\"''))) = ''\"BOGUS\"''"
    and t5: "isASCII ''  left''"
    and t6: "jsonUnmarshal sample_lib (TrimSpace sample_lib ''  left'') = None"
    and t7: "ToUpper sample_lib (TrimSpace sample_lib ''  left'') = ''LEFT''"
    and t8: "jsonUnmarshal sample_lib (TrimSpace sample_lib long_s_line) = None"
    and t9: "ToUpper sample_lib (TrimSpace sample_lib
               (ToUpper sample_lib (TrimSpace sample_lib long_s_line))) = ''S''"
    and t10: "jsonUnmarshal sample_lib (TrimSpace sample_lib nbsp_down_line) = None"
    and t11: "ToUpper sample_lib (TrimSpace sample_lib
               (ToUpper sample_lib (TrimSpace sample_lib nbsp_down_line))) = ''DOWN''"
    by code_simp+
  have "parseResponseLine sample_lib ''  left'' =
        (let t = ToUpper sample_lib (TrimSpace sample_lib ''  left'')
         in if t \<in> {''UP'', ''U'', ''W''} then DirectionUp
            else if t \<in> {''DOWN'', ''D'', ''S''} then DirectionDown
            else if t \<in> {''LEFT'', ''L'', ''A''} then DirectionLeft
            else if t \<in> {''RIGHT'', ''R''} then DirectionRight
            else DirectionUp)"
    using parse_response_two_stage [of sample_lib "''  left''"] t5 t6 by blast
  then have left: "parseResponseLine sample_lib ''  left'' = DirectionLeft"
    by (simp add: t7 Let_def)
  have right: "parseResponseLine sample_lib '' {\"move\":\"right\"}  '' = DirectionRight"
    using parse_response_two_stage [of sample_lib "'' {\"move\":\"right\"}  ''"]
    by (simp add: t1 t2 Let_def)
  have bogus: "parseResponseLine sample_lib ''\"bogus\"'' = DirectionUp"
    using parse_response_two_stage [of sample_lib "''\"bogus\"''"]
    by (simp add: t3 t4 Let_def)
  have longs: "parseResponseLine sample_lib long_s_line = DirectionDown"
    using parse_response_two_stage [of sample_lib long_s_line]
    by (simp add: t8 t9 Let_def)
  have nbsp: "parseResponseLine sample_lib nbsp_down_line = DirectionDown"
    using parse_response_two_stage [of sample_lib nbsp_down_line]
    by (simp add: t10 t11 Let_def)
  from left right bogus longs nbsp t5 t6 show ?thesis by blast
qed

text \<open>
  C8. For a bot player in slot 1 or 2: when the deadline is the case taken, GetMove
  answers with the current direction of the bot's own snake, read from the live state at
  index \<^verbatim>\<open>ID - 1\<close>, and sets the timeout flag; when the process is not running, or
  the serialisation, the write or the read fails, it answers with the same direction and
  the timeout flag is false. That snake is the one the reordered copy sent to the bot
  shows at index 0.
\<close>

theorem GetMove_fallback:
  assumes "BotPlayer_ID bp = 1 \<or> BotPlayer_ID bp = 2"
  shows "(isRunning bp \<longrightarrow>
            Response_Move (fst (GetMove bp gs timeout lib DeadlineElapsed)) =
              Direction (snakeAt gs (BotPlayer_ID bp - 1)) \<and>
            Timeout (fst (GetMove bp gs timeout lib DeadlineElapsed))) \<and>
         (\<not> isRunning bp \<or> io \<in> {SerializeFails, WriteFails, ScanFails} \<longrightarrow>
            Response_Move (fst (GetMove bp gs timeout lib io)) =
              Direction (snakeAt gs (BotPlayer_ID bp - 1)) \<and>
            \<not> Timeout (fst (GetMove bp gs timeout lib io))) \<and>
         snakeAt gs (BotPlayer_ID bp - 1) = snakeAt (stateForBot gs (BotPlayer_ID bp)) 0"
proof -
  have "snakeAt gs (BotPlayer_ID bp - 1) = snakeAt (stateForBot gs (BotPlayer_ID bp)) 0"
    using assms by (auto simp: stateForBot_def snakeAt_def)
  moreover have "isRunning bp \<longrightarrow>
            Response_Move (fst (GetMove bp gs timeout lib DeadlineElapsed)) =
              Direction (snakeAt gs (BotPlayer_ID bp - 1)) \<and>
            Timeout (fst (GetMove bp gs timeout lib DeadlineElapsed))"
    by (simp add: GetMove_def getDefaultMove_def)
  moreover have "\<not> isRunning bp \<or> io \<in> {SerializeFails, WriteFails, ScanFails} \<longrightarrow>
            Response_Move (fst (GetMove bp gs timeout lib io)) =
              Direction (snakeAt gs (BotPlayer_ID bp - 1)) \<and>
            \<not> Timeout (fst (GetMove bp gs timeout lib io))"
    by (auto simp: GetMove_def getDefaultMove_def)
  ultimately show ?thesis by blast
qed

theorem GetMove_fallback_witness:
  "(BotPlayer_ID bot2 = 1 \<or> BotPlayer_ID bot2 = 2) \<and> isRunning bot2 \<and>
   Response_Move (fst (GetMove bot2 map_state 500 sample_lib DeadlineElapsed)) = DirectionUp \<and>
   Timeout (fst (GetMove bot2 map_state 500 sample_lib DeadlineElapsed)) \<and>
   Response_Move (fst (GetMove bot2 map_state 500 sample_lib ScanFails)) = DirectionUp \<and>
   \<not> Timeout (fst (GetMove bot2 map_state 500 sample_lib ScanFails)) \<and>
   Direction (snakeAt (stateForBot map_state 2) 1) = DirectionDown \<and>
   Response_Move (fst (GetMove bot1_stopped map_state 500 sample_lib (LineRead ''UP'' 3))) =
     DirectionDown \<and>
   \<not> Timeout (fst (GetMove bot1_stopped map_state 500 sample_lib (LineRead ''UP'' 3)))"
proof -
  have i: "BotPlayer_ID bot2 = 1 \<or> BotPlayer_ID bot2 = 2" and r: "isRunning bot2"
    by (simp_all add: bot2_def)
  have d: "Direction (snakeAt map_state (BotPlayer_ID bot2 - 1)) = DirectionUp"
    by (simp add: bot2_def map_state_def snakeAt_def start_snake2_def)
  have o: "Direction (snakeAt (stateForBot map_state 2) 1) = DirectionDown"
    by (simp add: stateForBot_def map_state_def snakeAt_def start_snake1_def)
  have i1: "BotPlayer_ID bot1_stopped = 1 \<or> BotPlayer_ID bot1_stopped = 2"
    and r1: "\<not> isRunning bot1_stopped"
    by (simp_all add: bot1_stopped_def)
  have d1: "Direction (snakeAt map_state (BotPlayer_ID bot1_stopped - 1)) = DirectionDown"
    by (simp add: bot1_stopped_def map_state_def snakeAt_def start_snake1_def)
  from GetMove_fallback [OF i, of map_state 500 sample_lib ScanFails]
    GetMove_fallback [OF i1, of map_state 500 sample_lib "LineRead ''UP'' 3"] i r d o r1 d1
  show ?thesis by simp
qed

section \<open>Properties of SpawnApple\<close>

lemma set_gridCells:
  "set (gridCells gs) =
     {p. 0 \<le> X p \<and> X p < GridWidth gs \<and> 0 \<le> Y p \<and> Y p < GridHeight gs}"
proof (rule set_eqI)
  fix p :: Position
  have "p \<in> set (gridCells gs) \<longleftrightarrow>
          (\<exists>y\<in>{0..GridHeight gs - 1}. \<exists>x\<in>{0..GridWidth gs - 1}. p = \<lparr>X = x, Y = y\<rparr>)"
    by (auto simp: gridCells_def)
  also have "\<dots> \<longleftrightarrow> 0 \<le> X p \<and> X p < GridWidth gs \<and> 0 \<le> Y p \<and> Y p < GridHeight gs"
  proof
    assume "\<exists>y\<in>{0..GridHeight gs - 1}. \<exists>x\<in>{0..GridWidth gs - 1}. p = \<lparr>X = x, Y = y\<rparr>"
    then show "0 \<le> X p \<and> X p < GridWidth gs \<and> 0 \<le> Y p \<and> Y p < GridHeight gs"
      by auto
  next
    assume r: "0 \<le> X p \<and> X p < GridWidth gs \<and> 0 \<le> Y p \<and> Y p < GridHeight gs"
    have "p = \<lparr>X = X p, Y = Y p\<rparr>" by simp
    moreover have "Y p \<in> {0..GridHeight gs - 1}" "X p \<in> {0..GridWidth gs - 1}"
      using r by auto
    ultimately show "\<exists>y\<in>{0..GridHeight gs - 1}. \<exists>x\<in>{0..GridWidth gs - 1}. p = \<lparr>X = x, Y = y\<rparr>"
      by blast
  qed
  finally show "p \<in> set (gridCells gs) \<longleftrightarrow>
       p \<in> {p. 0 \<le> X p \<and> X p < GridWidth gs \<and> 0 \<le> Y p \<and> Y p < GridHeight gs}"
    by simp
qed

lemma set_zonePositions:
  "set (zonePositions gs z) =
     {p. 0 \<le> X p \<and> X p < GridWidth gs \<and> 0 \<le> Y p \<and> Y p < GridHeight gs \<and>
         p \<notin> set (occupied gs) \<and>
         zoneOf (GetHead (fst (Snakes gs))) (GetHead (snd (Snakes gs))) p = z}"
  by (auto simp: zonePositions_def set_gridCells)

lemma selectedPositions_cases:
  "selectedPositions gs = zonePositions gs Neutral \<or>
   selectedPositions gs = zonePositions gs Snake1Zone \<or>
   selectedPositions gs = zonePositions gs Snake2Zone"
  by (simp add: selectedPositions_def Let_def)

lemma selectedPositions_empty:
  "selectedPositions gs = [] \<longleftrightarrow>
     zonePositions gs Neutral = [] \<and> zonePositions gs Snake1Zone = [] \<and>
     zonePositions gs Snake2Zone = []"
  by (auto simp: selectedPositions_def Let_def)

lemma set_selectedPositions:
  "set (selectedPositions gs) \<subseteq>
     {p. 0 \<le> X p \<and> X p < GridWidth gs \<and> 0 \<le> Y p \<and> Y p < GridHeight gs \<and>
         p \<notin> set (occupied gs)}"
  using selectedPositions_cases [of gs] by (auto simp: set_zonePositions)

lemma free_cell_selected:
  assumes "0 \<le> X p" "X p < GridWidth gs" "0 \<le> Y p" "Y p < GridHeight gs"
    and "p \<notin> set (occupied gs)"
  shows "selectedPositions gs \<noteq> []"
proof -
  have "p \<in> set (zonePositions gs (zoneOf (GetHead (fst (Snakes gs))) (GetHead (snd (Snakes gs))) p))"
    using assms by (simp add: set_zonePositions)
  then have "zonePositions gs (zoneOf (GetHead (fst (Snakes gs))) (GetHead (snd (Snakes gs))) p) \<noteq> []"
    by auto
  then show ?thesis
    by (cases "zoneOf (GetHead (fst (Snakes gs))) (GetHead (snd (Snakes gs))) p")
       (auto simp: selectedPositions_empty)
qed

lemma SpawnApple_none:
  "selectedPositions gs = [] \<Longrightarrow> SpawnApple gs g = (gs, g)"
  by (simp add: SpawnApple_def)

lemma SpawnApple_some:
  assumes "selectedPositions gs \<noteq> []"
  shows "\<exists>a. fst (SpawnApple gs g) = gs\<lparr>Apples := Apples gs @ [a]\<rparr> \<and>
             applePos a \<in> set (selectedPositions gs)"
proof -
  let ?sel = "selectedPositions gs"
  let ?pos = "?sel ! (g 0 mod length ?sel)"
  let ?a = "\<lparr>Apple_X = X ?pos, Apple_Y = Y ?pos, Apple_Type = appleTypeOf (g (Suc 0) mod 100)\<rparr>"
  have "g 0 mod length ?sel < length ?sel"
    using assms by simp
  then have "?pos \<in> set ?sel"
    by (rule nth_mem)
  moreover have "applePos ?a = ?pos"
    by (cases ?pos) (simp add: applePos_def)
  ultimately have "applePos ?a \<in> set ?sel"
    by simp
  moreover have "fst (SpawnApple gs g) = gs\<lparr>Apples := Apples gs @ [?a]\<rparr>"
    using assms by (simp add: SpawnApple_def Let_def Intn_def split_def)
  ultimately show ?thesis by blast
qed

lemma in_occupied:
  "p \<in> set (occupied gs) \<longleftrightarrow>
     p \<in> set (Body (fst (Snakes gs))) \<or> p \<in> set (Body (snd (Snakes gs))) \<or>
     p \<in> applePos ` set (Apples gs) \<or> (\<exists>m. Map gs = Some m \<and> p \<in> set (Obstacles m))"
  by (cases "Map gs") (auto simp: occupied_def)

text \<open>
  C2. SpawnApple either leaves the state and the random source as they are, or appends
  exactly one apple, and that apple lies on no body segment of either snake, on no
  existing apple and on no obstacle of the map. When every cell of the grid holds a body
  segment, an apple or an obstacle, SpawnApple leaves the state as it is. This holds for
  every game state, reachable or not.
\<close>

theorem SpawnApple_unoccupied:
  "((\<exists>a. fst (SpawnApple gs g) = gs\<lparr>Apples := Apples gs @ [a]\<rparr> \<and>
          applePos a \<notin> set (Body (fst (Snakes gs))) \<and>
          applePos a \<notin> set (Body (snd (Snakes gs))) \<and>
          applePos a \<notin> applePos ` set (Apples gs) \<and>
          (\<forall>m. Map gs = Some m \<longrightarrow> applePos a \<notin> set (Obstacles m)))
     \<or> SpawnApple gs g = (gs, g)) \<and>
    ((\<forall>p. 0 \<le> X p \<and> X p < GridWidth gs \<and> 0 \<le> Y p \<and> Y p < GridHeight gs \<longrightarrow>
          p \<in> set (Body (fst (Snakes gs))) \<or> p \<in> set (Body (snd (Snakes gs))) \<or>
          p \<in> applePos ` set (Apples gs) \<or> (\<exists>m. Map gs = Some m \<and> p \<in> set (Obstacles m)))
     \<longrightarrow> SpawnApple gs g = (gs, g))"
proof (intro conjI impI)
  show "(\<exists>a. fst (SpawnApple gs g) = gs\<lparr>Apples := Apples gs @ [a]\<rparr> \<and>
          applePos a \<notin> set (Body (fst (Snakes gs))) \<and>
          applePos a \<notin> set (Body (snd (Snakes gs))) \<and>
          applePos a \<notin> applePos ` set (Apples gs) \<and>
          (\<forall>m. Map gs = Some m \<longrightarrow> applePos a \<notin> set (Obstacles m)))
     \<or> SpawnApple gs g = (gs, g)"
  proof (cases "selectedPositions gs = []")
    case True
    then show ?thesis by (simp add: SpawnApple_none)
  next
    case False
    from SpawnApple_some [OF False, of g] obtain a where
      a: "fst (SpawnApple gs g) = gs\<lparr>Apples := Apples gs @ [a]\<rparr>"
      and "applePos a \<in> set (selectedPositions gs)" by blast
    then have "applePos a \<notin> set (occupied gs)"
      using set_selectedPositions [of gs] by auto
    then show ?thesis
      using a unfolding in_occupied by blast
  qed
next
  assume full: "\<forall>p. 0 \<le> X p \<and> X p < GridWidth gs \<and> 0 \<le> Y p \<and> Y p < GridHeight gs \<longrightarrow>
          p \<in> set (Body (fst (Snakes gs))) \<or> p \<in> set (Body (snd (Snakes gs))) \<or>
          p \<in> applePos ` set (Apples gs) \<or> (\<exists>m. Map gs = Some m \<and> p \<in> set (Obstacles m))"
  have "p \<notin> set (selectedPositions gs)" for p
    using set_selectedPositions [of gs] full unfolding in_occupied by blast
  then have "set (selectedPositions gs) \<subseteq> {}"
    by blast
  then show "SpawnApple gs g = (gs, g)"
    by (simp add: SpawnApple_none)
qed


text \<open>On the grid of two cells, both under a snake, nothing is spawned.\<close>

theorem SpawnApple_unoccupied_witness:
  "GridWidth full_state = 2 \<and> GridHeight full_state = 1 \<and>
   \<lparr>X = 0, Y = 0\<rparr> \<in> set (Body (fst (Snakes full_state))) \<and>
   \<lparr>X = 1, Y = 0\<rparr> \<in> set (Body (snd (Snakes full_state))) \<and>
   SpawnApple full_state id = (full_state, id)"
proof -
  have full: "\<forall>p. 0 \<le> X p \<and> X p < GridWidth full_state \<and> 0 \<le> Y p \<and> Y p < GridHeight full_state \<longrightarrow>
        p \<in> set (Body (fst (Snakes full_state))) \<or> p \<in> set (Body (snd (Snakes full_state))) \<or>
        p \<in> applePos ` set (Apples full_state) \<or>
        (\<exists>m. Map full_state = Some m \<and> p \<in> set (Obstacles m))"
  proof (intro allI impI)
    fix p :: Position
    assume "0 \<le> X p \<and> X p < GridWidth full_state \<and> 0 \<le> Y p \<and> Y p < GridHeight full_state"
    then have "(X p = 0 \<or> X p = 1) \<and> Y p = 0"
      by (auto simp: full_state_def)
    then have "p = \<lparr>X = 0, Y = 0\<rparr> \<or> p = \<lparr>X = 1, Y = 0\<rparr>"
      by (cases p) auto
    then show "p \<in> set (Body (fst (Snakes full_state))) \<or> p \<in> set (Body (snd (Snakes full_state))) \<or>
        p \<in> applePos ` set (Apples full_state) \<or>
        (\<exists>m. Map full_state = Some m \<and> p \<in> set (Obstacles m))"
      by (auto simp: full_state_def)
  qed
  with SpawnApple_unoccupied [of full_state id]
  have "SpawnApple full_state id = (full_state, id)"
    by blast
  then show ?thesis
    by (simp add: full_state_def)
qed

lemma one_apple_heads:
  "GetHead (fst (Snakes one_apple_state)) = \<lparr>X = 1, Y = 2\<rparr>"
  "GetHead (snd (Snakes one_apple_state)) = \<lparr>X = 18, Y = 17\<rparr>"
  by (simp_all add: one_apple_state_def start_snake1_def start_snake2_def GetHead_def)

lemma one_apple_counts:
  "zoneAppleCount one_apple_state Neutral = 1"
  "zoneAppleCount one_apple_state Snake1Zone = 0"
  "zoneAppleCount one_apple_state Snake2Zone = 0"
  unfolding zoneAppleCount_def one_apple_heads
  by (simp_all add: one_apple_state_def zoneOf_def manhattanDistance_def applePos_def)

lemma one_apple_occupied:
  "set (occupied one_apple_state) =
     {\<lparr>X = 1, Y = 2\<rparr>, \<lparr>X = 1, Y = 1\<rparr>, \<lparr>X = 1, Y = 0\<rparr>,
      \<lparr>X = 18, Y = 17\<rparr>, \<lparr>X = 18, Y = 18\<rparr>, \<lparr>X = 18, Y = 19\<rparr>, \<lparr>X = 10, Y = 10\<rparr>}"
  by (simp add: occupied_def one_apple_state_def start_snake1_def start_snake2_def applePos_def)

lemma one_apple_zones:
  "\<lparr>X = 9, Y = 9\<rparr> \<in> set (zonePositions one_apple_state Neutral)"
  "\<lparr>X = 0, Y = 0\<rparr> \<in> set (zonePositions one_apple_state Snake1Zone)"
  "\<lparr>X = 19, Y = 19\<rparr> \<in> set (zonePositions one_apple_state Snake2Zone)"
  unfolding set_zonePositions one_apple_heads one_apple_occupied
  by (simp_all add: one_apple_state_def zoneOf_def manhattanDistance_def)

text \<open>
  C1 (the code at the failing input). On the board of NewGameState after its first
  spawn the neutral zone holds one apple and the zones of snake 1 and of snake 2 hold
  none, and both have empty cells. The zone with the fewest apples is then a snake's
  zone, but for every random source SpawnApple puts the new apple in the neutral zone:
  the selection compares the two snake counts only.
\<close>

theorem SpawnApple_ignores_neutral_count:
  "zoneAppleCount one_apple_state Neutral = 1 \<and>
   zoneAppleCount one_apple_state Snake1Zone = 0 \<and>
   zoneAppleCount one_apple_state Snake2Zone = 0 \<and>
   zonePositions one_apple_state Snake1Zone \<noteq> [] \<and>
   zonePositions one_apple_state Snake2Zone \<noteq> [] \<and>
   (\<forall>g. \<exists>a. fst (SpawnApple one_apple_state g) =
               one_apple_state\<lparr>Apples := Apples one_apple_state @ [a]\<rparr> \<and>
             zoneOf \<lparr>X = 1, Y = 2\<rparr> \<lparr>X = 18, Y = 17\<rparr> (applePos a) = Neutral)"
proof -
  have n: "zonePositions one_apple_state Neutral \<noteq> []"
    and s1: "zonePositions one_apple_state Snake1Zone \<noteq> []"
    and s2: "zonePositions one_apple_state Snake2Zone \<noteq> []"
    using one_apple_zones by auto
  have sel: "selectedPositions one_apple_state = zonePositions one_apple_state Neutral"
    using n by (simp add: selectedPositions_def one_apple_counts Let_def)
  have "\<exists>a. fst (SpawnApple one_apple_state g) =
               one_apple_state\<lparr>Apples := Apples one_apple_state @ [a]\<rparr> \<and>
             zoneOf \<lparr>X = 1, Y = 2\<rparr> \<lparr>X = 18, Y = 17\<rparr> (applePos a) = Neutral" for g
  proof -
    from n sel have "selectedPositions one_apple_state \<noteq> []" by simp
    from SpawnApple_some [OF this, of g] obtain a where
      a: "fst (SpawnApple one_apple_state g) =
            one_apple_state\<lparr>Apples := Apples one_apple_state @ [a]\<rparr>"
      and "applePos a \<in> set (zonePositions one_apple_state Neutral)"
      unfolding sel by blast
    then have "zoneOf \<lparr>X = 1, Y = 2\<rparr> \<lparr>X = 18, Y = 17\<rparr> (applePos a) = Neutral"
      unfolding set_zonePositions one_apple_heads by simp
    with a show ?thesis by blast
  qed
  with one_apple_counts s1 s2 show ?thesis by blast
qed

section \<open>Properties of the turn\<close>

lemma snakeAt_setSnake [simp]:
  "snakeAt (setSnake gs 0 s) 0 = s"
  "snakeAt (setSnake gs 1 s) 1 = s"
  "snakeAt (setSnake gs 0 s) 1 = snakeAt gs 1"
  "snakeAt (setSnake gs 1 s) 0 = snakeAt gs 0"
  by (simp_all add: snakeAt_def setSnake_def)

lemma setSnake_fields [simp]:
  "Turn (setSnake gs i s) = Turn gs"
  "GridWidth (setSnake gs i s) = GridWidth gs"
  "GridHeight (setSnake gs i s) = GridHeight gs"
  "Apples (setSnake gs i s) = Apples gs"
  "Map (setSnake gs i s) = Map gs"
  "Winner (setSnake gs i s) = Winner gs"
  "GameOver (setSnake gs i s) = GameOver gs"
  by (simp_all add: setSnake_def)

lemma snakeAt_update [simp]:
  "snakeAt (gs\<lparr>Turn := t\<rparr>) i = snakeAt gs i"
  "snakeAt (gs\<lparr>Apples := as\<rparr>) i = snakeAt gs i"
  "snakeAt (gs\<lparr>Winner := w\<rparr>) i = snakeAt gs i"
  "snakeAt (gs\<lparr>GameOver := b\<rparr>) i = snakeAt gs i"
  by (simp_all add: snakeAt_def)

lemma setSnake_same [simp]:
  "setSnake gs 0 (snakeAt gs 0) = gs"
  "setSnake gs 1 (snakeAt gs 1) = gs"
  by (simp_all add: snakeAt_def setSnake_def)

lemma Move_dead [simp]: "\<not> Alive s \<Longrightarrow> Move s m grow = s"
  by (simp add: Move_def)

lemma Move_fields [simp]:
  "Alive (Move s m False) = Alive s"
  "Length (Move s m False) = Length s"
  "ID (Move s m False) = ID s"
  "Score (Move s m False) = Score s"
  "SpeedTurns (Move s m False) = SpeedTurns s"
  "SleepTurns (Move s m False) = SleepTurns s"
  "Energy (Move s m False) = Energy s"
  "DeathReason (Move s m False) = DeathReason s"
  "length (Body (Move s m False)) = length (Body s)"
  by (simp_all add: Move_def Let_def)

subsection \<open>Dimmed snakes and life steps\<close>

lemma dimmed_refl [simp]: "dimmed s s"
  by (simp add: dimmed_def)

lemma dimmed_kill: "Alive s \<Longrightarrow> dimmed s (kill s r)"
  by (auto simp: dimmed_def)

lemma dimmed_dead: "dimmed s s' \<Longrightarrow> \<not> Alive s \<Longrightarrow> s' = s"
  by (auto simp: dimmed_def)

lemma dimmed_alive: "dimmed s s' \<Longrightarrow> Alive s' \<Longrightarrow> s' = s"
  by (auto simp: dimmed_def kill_def)

lemma dimmed_trans: "dimmed s s' \<Longrightarrow> dimmed s' s'' \<Longrightarrow> dimmed s s''"
  by (auto simp: dimmed_def kill_def)

lemma dimmed_fields:
  assumes "dimmed s s'"
  shows "Body s' = Body s" "Direction s' = Direction s" "Length s' = Length s"
    "ID s' = ID s" "Score s' = Score s" "SpeedTurns s' = SpeedTurns s"
    "SleepTurns s' = SleepTurns s" "Energy s' = Energy s"
  using assms by (auto simp: dimmed_def kill_def)

lemma lifeStep_refl [simp]: "lifeStep gs gs"
proof -
  have "gs = gs\<lparr>Snakes := (fst (Snakes gs), snd (Snakes gs))\<rparr>" by simp
  then show ?thesis
    unfolding lifeStep_def using dimmed_refl by blast
qed

lemma lifeStep_trans:
  assumes "lifeStep gs gs'" and "lifeStep gs' gs''"
  shows "lifeStep gs gs''"
proof -
  from assms(1) obtain a b where 1: "gs' = gs\<lparr>Snakes := (a, b)\<rparr>"
    and a: "dimmed (fst (Snakes gs)) a" and b: "dimmed (snd (Snakes gs)) b"
    unfolding lifeStep_def by blast
  from assms(2) obtain c d where 2: "gs'' = gs'\<lparr>Snakes := (c, d)\<rparr>"
    and c: "dimmed (fst (Snakes gs')) c" and d: "dimmed (snd (Snakes gs')) d"
    unfolding lifeStep_def by blast
  have "gs'' = gs\<lparr>Snakes := (c, d)\<rparr>"
    by (simp add: 1 2)
  moreover have "dimmed (fst (Snakes gs)) c"
    using a c by (auto simp: 1 intro: dimmed_trans)
  moreover have "dimmed (snd (Snakes gs)) d"
    using b d by (auto simp: 1 intro: dimmed_trans)
  ultimately show ?thesis
    unfolding lifeStep_def by blast
qed

lemma lifeStep_snake:
  assumes "lifeStep gs gs'"
  shows "dimmed (snakeAt gs i) (snakeAt gs' i)"
  using assms by (auto simp: lifeStep_def snakeAt_def)

lemma lifeStep_fields:
  assumes "lifeStep gs gs'"
  shows "Turn gs' = Turn gs" "GridWidth gs' = GridWidth gs" "GridHeight gs' = GridHeight gs"
    "Apples gs' = Apples gs" "Map gs' = Map gs" "Winner gs' = Winner gs"
    "GameOver gs' = GameOver gs"
  using assms by (auto simp: lifeStep_def)

lemma lifeStep_kill0: "Alive (snakeAt gs 0) \<Longrightarrow> lifeStep gs (setSnake gs 0 (kill (snakeAt gs 0) r))"
  unfolding lifeStep_def setSnake_def snakeAt_def
  using dimmed_kill dimmed_refl by (metis (full_types))

lemma lifeStep_kill1: "Alive (snakeAt gs 1) \<Longrightarrow> lifeStep gs (setSnake gs 1 (kill (snakeAt gs 1) r))"
  unfolding lifeStep_def setSnake_def snakeAt_def
  using dimmed_kill dimmed_refl by (metis (full_types) one_neq_zero)


subsection \<open>Collision checks\<close>

lemma CheckCollision1_lifeStep: "lifeStep gs (fst (CheckCollision gs 1))"
  by (simp add: CheckCollision_def Let_def lifeStep_kill0)

lemma CheckCollision2_lifeStep: "lifeStep gs (fst (CheckCollision gs 2))"
  by (simp add: CheckCollision_def Let_def lifeStep_kill1)

lemma CheckCollision_quiet: "\<not> snd (CheckCollision gs snakeID) \<Longrightarrow> fst (CheckCollision gs snakeID) = gs"
  by (simp add: CheckCollision_def Let_def split: if_splits)

lemma GetHead_in_grid: "0 \<le> X (GetHead s) \<Longrightarrow> Body s \<noteq> []"
  by (auto simp: GetHead_def)

lemma CheckCollision1_alive:
  "Alive (snakeAt (fst (CheckCollision gs 1)) 0) \<Longrightarrow> Body (snakeAt gs 0) \<noteq> []"
  by (auto simp: CheckCollision_def Let_def kill_def GetHead_def split: if_splits)

lemma CheckCollision2_alive:
  "Alive (snakeAt (fst (CheckCollision gs 2)) 1) \<Longrightarrow> Body (snakeAt gs 1) \<noteq> []"
  by (auto simp: CheckCollision_def Let_def kill_def GetHead_def split: if_splits)

lemma checkCollisions_eq:
  "checkCollisions gs =
     (fst (CheckCollision (fst (CheckCollision gs 1)) 2),
      snd (CheckCollision gs 1), snd (CheckCollision (fst (CheckCollision gs 1)) 2))"
  by (simp add: checkCollisions_def split_def Let_def)

lemma checkCollisions_lifeStep: "lifeStep gs (fst (checkCollisions gs))"
  unfolding checkCollisions_eq fst_conv
  by (rule lifeStep_trans [OF CheckCollision1_lifeStep CheckCollision2_lifeStep])

lemma checkCollisions_quiet:
  assumes "\<not> fst (snd (checkCollisions gs))" and "\<not> snd (snd (checkCollisions gs))"
  shows "fst (checkCollisions gs) = gs"
  using assms unfolding checkCollisions_eq by (simp add: CheckCollision_quiet)

lemma checkCollisions_alive:
  assumes "Alive (snakeAt (fst (checkCollisions gs)) i)" and "i = 0 \<or> i = 1"
  shows "Body (snakeAt gs i) \<noteq> []"
proof -
  let ?g1 = "fst (CheckCollision gs 1)"
  let ?g2 = "fst (CheckCollision ?g1 2)"
  have g2: "fst (checkCollisions gs) = ?g2"
    by (simp add: checkCollisions_eq)
  from assms(2) show ?thesis
  proof
    assume i: "i = 0"
    have "dimmed (snakeAt ?g1 0) (snakeAt ?g2 0)"
      by (rule lifeStep_snake [OF CheckCollision2_lifeStep])
    with assms(1) have "Alive (snakeAt ?g1 0)"
      unfolding g2 i by (auto dest: dimmed_alive)
    then show ?thesis
      unfolding i by (rule CheckCollision1_alive)
  next
    assume i: "i = 1"
    from assms(1) have "Body (snakeAt ?g1 1) \<noteq> []"
      unfolding g2 i by (rule CheckCollision2_alive)
    moreover have "dimmed (snakeAt gs 1) (snakeAt ?g1 1)"
      by (rule lifeStep_snake [OF CheckCollision1_lifeStep])
    ultimately show ?thesis
      unfolding i by (simp add: dimmed_fields)
  qed
qed

subsection \<open>Head-to-head resolution\<close>

lemma headToHead_lifeStep: "lifeStep gs (fst (headToHead (gs, c1, c2)))"
proof -
  have both: "lifeStep gs (setSnake (setSnake gs 0 (kill (snakeAt gs 0) r)) 1 (kill (snakeAt gs 1) r))"
    if "Alive (snakeAt gs 0)" "Alive (snakeAt gs 1)" for r
  proof -
    have "lifeStep (setSnake gs 0 (kill (snakeAt gs 0) r))
            (setSnake (setSnake gs 0 (kill (snakeAt gs 0) r)) 1
               (kill (snakeAt (setSnake gs 0 (kill (snakeAt gs 0) r)) 1) r))"
      by (rule lifeStep_kill1) (simp add: that)
    then show ?thesis
      using lifeStep_trans [OF lifeStep_kill0 [OF that(1)]] by simp
  qed
  show ?thesis
    by (simp add: headToHead_def Let_def lifeStep_kill0 lifeStep_kill1 both)
qed

lemma headToHead_quiet:
  assumes "\<not> fst (snd (headToHead (gs, c1, c2)))" and "\<not> snd (snd (headToHead (gs, c1, c2)))"
  shows "headToHead (gs, c1, c2) = (gs, c1, c2)"
  using assms by (simp add: headToHead_def Let_def split: if_splits)

lemma headToHead_resolved:
  assumes "Alive (snakeAt gc 0)" and "Alive (snakeAt gc 1)"
    and "X (GetHead (snakeAt gc 0)) = X (GetHead (snakeAt gc 1))"
    and "Y (GetHead (snakeAt gc 0)) = Y (GetHead (snakeAt gc 1))"
  shows "headToHead (gc, c1, c2) =
     (if Length (snakeAt gc 0) > Length (snakeAt gc 1) then
        (setSnake gc 1 (kill (snakeAt gc 1) ''head-to-head''), c1, True)
      else if Length (snakeAt gc 1) > Length (snakeAt gc 0) then
        (setSnake gc 0 (kill (snakeAt gc 0) ''head-to-head''), True, c2)
      else (setSnake (setSnake gc 0 (kill (snakeAt gc 0) ''head-to-head'')) 1
              (kill (snakeAt gc 1) ''head-to-head''), True, True))"
  using assms by (simp add: headToHead_def Let_def)

subsection \<open>One sub-step\<close>

lemma snakeAt_moveSnakes:
  "snakeAt (moveSnakes gs move1 move2 k m1 m2) 0 =
     (if SleepTurns (snakeAt gs 0) \<le> 0 \<and> k < m1 then Move (snakeAt gs 0) move1 False
      else snakeAt gs 0)"
  "snakeAt (moveSnakes gs move1 move2 k m1 m2) 1 =
     (if SleepTurns (snakeAt gs 1) \<le> 0 \<and> k < m2 then Move (snakeAt gs 1) move2 False
      else snakeAt gs 1)"
  by (simp_all add: moveSnakes_def Let_def)

lemma moveSnakes_fields:
  "Turn (moveSnakes gs move1 move2 k m1 m2) = Turn gs"
  "GridWidth (moveSnakes gs move1 move2 k m1 m2) = GridWidth gs"
  "GridHeight (moveSnakes gs move1 move2 k m1 m2) = GridHeight gs"
  "Apples (moveSnakes gs move1 move2 k m1 m2) = Apples gs"
  "Map (moveSnakes gs move1 move2 k m1 m2) = Map gs"
  by (simp_all add: moveSnakes_def Let_def)

lemma subStep_eq:
  "subStep gs move1 move2 k m1 m2 =
     (fst (headToHead (checkCollisions (moveSnakes gs move1 move2 k m1 m2))),
      fst (snd (headToHead (checkCollisions (moveSnakes gs move1 move2 k m1 m2)))) \<or>
      snd (snd (headToHead (checkCollisions (moveSnakes gs move1 move2 k m1 m2)))))"
  by (simp add: subStep_def split_def Let_def)

lemma subStep_lifeStep:
  "lifeStep (moveSnakes gs move1 move2 k m1 m2) (fst (subStep gs move1 move2 k m1 m2))"
proof -
  let ?gm = "moveSnakes gs move1 move2 k m1 m2"
  obtain gc c1 c2 where cc: "checkCollisions ?gm = (gc, c1, c2)"
    by (cases "checkCollisions ?gm") auto
  have "lifeStep ?gm gc"
    using checkCollisions_lifeStep [of ?gm] by (simp add: cc)
  moreover have "lifeStep gc (fst (headToHead (gc, c1, c2)))"
    by (rule headToHead_lifeStep)
  ultimately show ?thesis
    unfolding subStep_eq cc fst_conv by (rule lifeStep_trans)
qed

lemma subStep_quiet:
  assumes "\<not> snd (subStep gs move1 move2 k m1 m2)"
  shows "fst (subStep gs move1 move2 k m1 m2) = moveSnakes gs move1 move2 k m1 m2"
proof -
  let ?gm = "moveSnakes gs move1 move2 k m1 m2"
  obtain gc c1 c2 where cc: "checkCollisions ?gm = (gc, c1, c2)"
    by (cases "checkCollisions ?gm") auto
  from assms have q: "\<not> fst (snd (headToHead (gc, c1, c2)))" "\<not> snd (snd (headToHead (gc, c1, c2)))"
    by (simp_all add: subStep_eq cc)
  then have h: "headToHead (gc, c1, c2) = (gc, c1, c2)"
    by (rule headToHead_quiet)
  with q have "\<not> c1" "\<not> c2" by simp_all
  then have "gc = ?gm"
    using checkCollisions_quiet [of ?gm] by (simp add: cc)
  then show ?thesis
    unfolding subStep_eq cc h by simp
qed

lemma subStep_alive:
  assumes "Alive (snakeAt (fst (subStep gs move1 move2 k m1 m2)) i)" and "i = 0 \<or> i = 1"
  shows "Body (snakeAt (fst (subStep gs move1 move2 k m1 m2)) i) \<noteq> []"
proof -
  let ?gm = "moveSnakes gs move1 move2 k m1 m2"
  obtain gc c1 c2 where cc: "checkCollisions ?gm = (gc, c1, c2)"
    by (cases "checkCollisions ?gm") auto
  let ?gh = "fst (headToHead (gc, c1, c2))"
  have gh: "fst (subStep gs move1 move2 k m1 m2) = ?gh"
    by (simp add: subStep_eq cc)
  have d: "dimmed (snakeAt gc i) (snakeAt ?gh i)"
    by (rule lifeStep_snake [OF headToHead_lifeStep])
  with assms(1) have "Alive (snakeAt gc i)"
    unfolding gh by (auto dest: dimmed_alive)
  then have "Body (snakeAt ?gm i) \<noteq> []"
    using checkCollisions_alive [of ?gm i] assms(2) by (simp add: cc)
  moreover have "dimmed (snakeAt ?gm i) (snakeAt gc i)"
    using lifeStep_snake [OF checkCollisions_lifeStep, of ?gm i] by (simp add: cc)
  ultimately show ?thesis
    unfolding gh using d by (simp add: dimmed_fields)
qed


subsection \<open>The movement loop\<close>

declare moveLoop.simps [simp del]

lemma moveLoop_invariant:
  assumes "Q gs" and "\<And>gs k. Q gs \<Longrightarrow> Q (fst (subStep gs move1 move2 k m1 m2))"
  shows "Q (moveLoop gs move1 move2 k n m1 m2)"
  using assms
proof (induction gs move1 move2 k n m1 m2 rule: moveLoop.induct)
  case (1 gs move1 move2 moveCount maxMoves movesToMake1 movesToMake2)
  let ?st = "subStep gs move1 move2 moveCount movesToMake1 movesToMake2"
  have step: "Q (fst ?st)"
    using "1.prems" by simp
  show ?case
  proof (cases "moveCount < maxMoves")
    case False
    then show ?thesis
      using "1.prems"(1) by (simp add: moveLoop.simps [of gs])
  next
    case True
    show ?thesis
    proof (cases "snd ?st")
      case True
      with \<open>moveCount < maxMoves\<close> step show ?thesis
        by (simp add: moveLoop.simps [of gs])
    next
      case False
      have "Q (moveLoop (fst ?st) move1 move2 (moveCount + 1) maxMoves movesToMake1 movesToMake2)"
        using "1.IH" [OF True False step] "1.prems"(2) by simp
      with \<open>moveCount < maxMoves\<close> False show ?thesis
        by (simp add: moveLoop.simps [of gs])
    qed
  qed
qed

lemma moveLoop_after_step:
  assumes "k < n" and "\<And>gs k. P (fst (subStep gs move1 move2 k m1 m2))"
  shows "P (moveLoop gs move1 move2 k n m1 m2)"
  using assms
proof (induction gs move1 move2 k n m1 m2 rule: moveLoop.induct)
  case (1 gs move1 move2 moveCount maxMoves movesToMake1 movesToMake2)
  let ?st = "subStep gs move1 move2 moveCount movesToMake1 movesToMake2"
  have step: "P (fst ?st)"
    by (rule "1.prems"(2))
  show ?case
  proof (cases "snd ?st")
    case True
    with "1.prems"(1) step show ?thesis
      by (simp add: moveLoop.simps [of gs])
  next
    case False
    show ?thesis
    proof (cases "moveCount + 1 < maxMoves")
      case True
      have "P (moveLoop (fst ?st) move1 move2 (moveCount + 1) maxMoves movesToMake1 movesToMake2)"
        using "1.IH" [OF "1.prems"(1) False True] "1.prems"(2) by simp
      with False "1.prems"(1) show ?thesis
        by (simp add: moveLoop.simps [of gs])
    next
      case False
      then have "moveLoop (fst ?st) move1 move2 (moveCount + 1) maxMoves movesToMake1 movesToMake2
                   = fst ?st"
        by (simp add: moveLoop.simps [of "fst ?st"])
      with \<open>\<not> snd ?st\<close> "1.prems"(1) step show ?thesis
        by (simp add: moveLoop.simps [of gs])
    qed
  qed
qed

lemma subStep_lengthsAgree:
  assumes "lengthsAgree gs"
  shows "lengthsAgree (fst (subStep gs move1 move2 k m1 m2))"
proof -
  let ?gm = "moveSnakes gs move1 move2 k m1 m2"
  let ?gs' = "fst (subStep gs move1 move2 k m1 m2)"
  have "lengthsAgree ?gm"
    using assms by (simp add: lengthsAgree_def snakeAt_moveSnakes)
  moreover have d: "dimmed (snakeAt ?gm i) (snakeAt ?gs' i)" for i
    by (rule lifeStep_snake [OF subStep_lifeStep])
  ultimately show ?thesis
    by (simp add: lengthsAgree_def dimmed_fields [OF d])
qed

lemma subStep_dead:
  assumes "\<not> Alive (snakeAt gs i)" and "i = 0 \<or> i = 1"
  shows "snakeAt (fst (subStep gs move1 move2 k m1 m2)) i = snakeAt gs i"
proof -
  let ?gm = "moveSnakes gs move1 move2 k m1 m2"
  have m: "snakeAt ?gm i = snakeAt gs i"
    using assms by (auto simp: snakeAt_moveSnakes)
  have "dimmed (snakeAt ?gm i) (snakeAt (fst (subStep gs move1 move2 k m1 m2)) i)"
    by (rule lifeStep_snake [OF subStep_lifeStep])
  then show ?thesis
    using assms(1) unfolding m by (rule dimmed_dead)
qed

lemma movePhase_eq:
  "movePhase gs move1 move2 =
     moveLoop (gs\<lparr>Turn := Turn gs + 1\<rparr>) move1 move2 0
       (if SpeedTurns (snakeAt gs 0) > 0 \<or> SpeedTurns (snakeAt gs 1) > 0 then 2 else 1)
       (if SpeedTurns (snakeAt gs 0) > 0 then 2 else 1)
       (if SpeedTurns (snakeAt gs 1) > 0 then 2 else 1)"
  by (simp add: movePhase_def Let_def)

lemma movePhase_lengthsAgree:
  assumes "lengthsAgree gs"
  shows "lengthsAgree (movePhase gs move1 move2)"
proof -
  have "lengthsAgree (gs\<lparr>Turn := Turn gs + 1\<rparr>)"
    using assms by (simp add: lengthsAgree_def)
  then show ?thesis
    unfolding movePhase_eq by (rule moveLoop_invariant) (rule subStep_lengthsAgree)
qed

lemma movePhase_alive:
  assumes "i = 0 \<or> i = 1"
  shows "Alive (snakeAt (movePhase gs move1 move2) i) \<longrightarrow>
         Body (snakeAt (movePhase gs move1 move2) i) \<noteq> []"
  unfolding movePhase_eq
proof (rule moveLoop_after_step)
  show "0 < (if SpeedTurns (snakeAt gs 0) > 0 \<or> SpeedTurns (snakeAt gs 1) > 0 then 2 else (1::int))"
    by simp
next
  fix gs' k m1 m2
  show "Alive (snakeAt (fst (subStep gs' move1 move2 k m1 m2)) i) \<longrightarrow>
        Body (snakeAt (fst (subStep gs' move1 move2 k m1 m2)) i) \<noteq> []"
    using subStep_alive [of gs' move1 move2 k m1 m2 i] assms by blast
qed

lemma movePhase_dead:
  assumes "\<not> Alive (snakeAt gs i)" and "i = 0 \<or> i = 1"
  shows "snakeAt (movePhase gs move1 move2) i = snakeAt gs i"
proof -
  define s where "s = snakeAt gs i"
  have "snakeAt (gs\<lparr>Turn := Turn gs + 1\<rparr>) i = s"
    by (simp add: s_def)
  then have "snakeAt (movePhase gs move1 move2) i = s"
    unfolding movePhase_eq
  proof (rule moveLoop_invariant)
    fix gs' k
    assume "snakeAt gs' i = s"
    then show "snakeAt (fst (subStep gs' move1 move2 k
         (if SpeedTurns (snakeAt gs 0) > 0 then 2 else 1)
         (if SpeedTurns (snakeAt gs 1) > 0 then 2 else 1))) i = s"
      using subStep_dead [of gs' i] assms by (simp add: s_def)
  qed
  then show ?thesis by (simp add: s_def)
qed

text \<open>
  C6. Take the state of a sub-step after both moves and both collision checks. When
  both snakes are alive there and their heads are on the same cell, the sub-step reports
  a collision (so the movement loop stops with it), and: if snake 1 has the greater
  \<^verbatim>\<open>Length\<close>, snake 2 is dead with reason head-to-head and snake 1 is as it was, alive;
  if snake 2 has the greater \<^verbatim>\<open>Length\<close>, the same with the roles exchanged; if the
  lengths are equal, both are dead with reason head-to-head.
\<close>

theorem head_to_head_resolution:
  assumes "checkCollisions (moveSnakes gs move1 move2 moveCount movesToMake1 movesToMake2) =
             (gc, collision1, collision2)"
    and "Alive (snakeAt gc 0)" and "Alive (snakeAt gc 1)"
    and "X (GetHead (snakeAt gc 0)) = X (GetHead (snakeAt gc 1))"
    and "Y (GetHead (snakeAt gc 0)) = Y (GetHead (snakeAt gc 1))"
  shows "snd (subStep gs move1 move2 moveCount movesToMake1 movesToMake2) \<and>
    (moveCount < maxMoves \<longrightarrow>
       moveLoop gs move1 move2 moveCount maxMoves movesToMake1 movesToMake2 =
         fst (subStep gs move1 move2 moveCount movesToMake1 movesToMake2)) \<and>
    (Length (snakeAt gc 0) > Length (snakeAt gc 1) \<longrightarrow>
       snakeAt (fst (subStep gs move1 move2 moveCount movesToMake1 movesToMake2)) 0 = snakeAt gc 0 \<and>
       snakeAt (fst (subStep gs move1 move2 moveCount movesToMake1 movesToMake2)) 1 =
         (snakeAt gc 1)\<lparr>Alive := False, DeathReason := ''head-to-head''\<rparr>) \<and>
    (Length (snakeAt gc 1) > Length (snakeAt gc 0) \<longrightarrow>
       snakeAt (fst (subStep gs move1 move2 moveCount movesToMake1 movesToMake2)) 0 =
         (snakeAt gc 0)\<lparr>Alive := False, DeathReason := ''head-to-head''\<rparr> \<and>
       snakeAt (fst (subStep gs move1 move2 moveCount movesToMake1 movesToMake2)) 1 = snakeAt gc 1) \<and>
    (Length (snakeAt gc 0) = Length (snakeAt gc 1) \<longrightarrow>
       snakeAt (fst (subStep gs move1 move2 moveCount movesToMake1 movesToMake2)) 0 =
         (snakeAt gc 0)\<lparr>Alive := False, DeathReason := ''head-to-head''\<rparr> \<and>
       snakeAt (fst (subStep gs move1 move2 moveCount movesToMake1 movesToMake2)) 1 =
         (snakeAt gc 1)\<lparr>Alive := False, DeathReason := ''head-to-head''\<rparr>)"
proof -
  let ?st = "subStep gs move1 move2 moveCount movesToMake1 movesToMake2"
  have hit: "snd ?st"
    unfolding subStep_def assms(1) headToHead_resolved [OF assms(2-5)] by simp
  then have "moveCount < maxMoves \<longrightarrow>
       moveLoop gs move1 move2 moveCount maxMoves movesToMake1 movesToMake2 = fst ?st"
    by (simp add: moveLoop.simps [of gs])
  moreover have "(Length (snakeAt gc 0) > Length (snakeAt gc 1) \<longrightarrow>
       snakeAt (fst ?st) 0 = snakeAt gc 0 \<and>
       snakeAt (fst ?st) 1 = (snakeAt gc 1)\<lparr>Alive := False, DeathReason := ''head-to-head''\<rparr>) \<and>
    (Length (snakeAt gc 1) > Length (snakeAt gc 0) \<longrightarrow>
       snakeAt (fst ?st) 0 = (snakeAt gc 0)\<lparr>Alive := False, DeathReason := ''head-to-head''\<rparr> \<and>
       snakeAt (fst ?st) 1 = snakeAt gc 1) \<and>
    (Length (snakeAt gc 0) = Length (snakeAt gc 1) \<longrightarrow>
       snakeAt (fst ?st) 0 = (snakeAt gc 0)\<lparr>Alive := False, DeathReason := ''head-to-head''\<rparr> \<and>
       snakeAt (fst ?st) 1 = (snakeAt gc 1)\<lparr>Alive := False, DeathReason := ''head-to-head''\<rparr>)"
    unfolding subStep_def assms(1) headToHead_resolved [OF assms(2-5)]
    by (simp add: kill_def)
  ultimately show ?thesis
    using hit by blast
qed

theorem head_to_head_resolution_witness:
  "checkCollisions (moveSnakes duel_state DirectionRight DirectionLeft 0 1 1) =
     (duel_moved, False, False) \<and>
   GetHead (snakeAt duel_moved 0) = \<lparr>X = 3, Y = 3\<rparr> \<and>
   GetHead (snakeAt duel_moved 1) = \<lparr>X = 3, Y = 3\<rparr> \<and>
   Length (snakeAt duel_moved 0) = 3 \<and> Length (snakeAt duel_moved 1) = 4 \<and>
   snd (subStep duel_state DirectionRight DirectionLeft 0 1 1) \<and>
   snakeAt (fst (subStep duel_state DirectionRight DirectionLeft 0 1 1)) 0 =
     (snakeAt duel_moved 0)\<lparr>Alive := False, DeathReason := ''head-to-head''\<rparr> \<and>
   snakeAt (fst (subStep duel_state DirectionRight DirectionLeft 0 1 1)) 1 = snakeAt duel_moved 1 \<and>
   Alive (snakeAt duel_moved 1)"
proof -
  have c: "checkCollisions (moveSnakes duel_state DirectionRight DirectionLeft 0 1 1) =
     (duel_moved, False, False)"
    by code_simp
  have a: "Alive (snakeAt duel_moved 0)" "Alive (snakeAt duel_moved 1)"
    and h: "GetHead (snakeAt duel_moved 0) = \<lparr>X = 3, Y = 3\<rparr>"
      "GetHead (snakeAt duel_moved 1) = \<lparr>X = 3, Y = 3\<rparr>"
    and l: "Length (snakeAt duel_moved 0) = 3" "Length (snakeAt duel_moved 1) = 4"
    by (simp_all add: duel_moved_def snakeAt_def GetHead_def)
  have x: "X (GetHead (snakeAt duel_moved 0)) = X (GetHead (snakeAt duel_moved 1))"
    and y: "Y (GetHead (snakeAt duel_moved 0)) = Y (GetHead (snakeAt duel_moved 1))"
    by (simp_all add: h)
  from head_to_head_resolution [OF c a x y, of 2] show ?thesis
    using c a h by (simp add: l)
qed

subsection \<open>Eating\<close>

lemma snakeAt_SpawnApple [simp]: "snakeAt (fst (SpawnApple gs g)) i = snakeAt gs i"
  by (simp add: SpawnApple_def Let_def split_def)

lemma eatPhase_dead:
  "\<not> Alive (snakeAt gs (snakeID - 1)) \<Longrightarrow> eatPhase gs snakeID g = (gs, False, g)"
  by (simp add: eatPhase_def)

text \<open>The type of the apple a living snake finds under its head, if any.\<close>

lemma eatPhase_eq:
  "eatPhase gs snakeID g =
     (if Alive (snakeAt gs (snakeID - 1)) then
        (case eatFirst (GetHead (snakeAt gs (snakeID - 1))) (Apples gs) of
           None \<Rightarrow> (gs, False, g)
         | Some (t, rest) \<Rightarrow>
             (fst (SpawnApple (ApplyAppleEffect (gs\<lparr>Apples := rest\<rparr>) snakeID t) g), True,
              snd (SpawnApple (ApplyAppleEffect (gs\<lparr>Apples := rest\<rparr>) snakeID t) g)))
      else (gs, False, g))"
  by (simp add: eatPhase_def CheckAppleEaten_def Let_def split_def split: option.splits)

lemma ApplyAppleEffect1_other:
  "snakeAt (ApplyAppleEffect gs 1 t) 1 =
     (if t = AppleSleep then (snakeAt gs 1)\<lparr>SleepTurns := 5\<rparr> else snakeAt gs 1)"
  by (simp add: ApplyAppleEffect_def Let_def)

lemma ApplyAppleEffect2_other:
  "snakeAt (ApplyAppleEffect gs 2 t) 0 =
     (if t = AppleSleep then (snakeAt gs 0)\<lparr>SleepTurns := 5\<rparr> else snakeAt gs 0)"
  by (simp add: ApplyAppleEffect_def Let_def)

lemma hd_growTail: "hd (growTail b n) = hd b"
  by (cases b) (simp_all add: growTail_def)

lemma hd_butlast: "butlast b \<noteq> [] \<Longrightarrow> hd (butlast b) = hd b"
  by (cases b) (auto split: if_splits)

lemma ApplyAppleEffect1_self:
  "Direction (snakeAt (ApplyAppleEffect gs 1 t) 0) = Direction (snakeAt gs 0)"
  "Alive (snakeAt (ApplyAppleEffect gs 1 t) 0) = Alive (snakeAt gs 0)"
  "Body (snakeAt (ApplyAppleEffect gs 1 t) 0) \<noteq> [] \<Longrightarrow>
     hd (Body (snakeAt (ApplyAppleEffect gs 1 t) 0)) = hd (Body (snakeAt gs 0))"
  by (simp_all add: ApplyAppleEffect_def Let_def hd_growTail hd_butlast split: if_splits)

lemma ApplyAppleEffect2_self:
  "Direction (snakeAt (ApplyAppleEffect gs 2 t) 1) = Direction (snakeAt gs 1)"
  "Alive (snakeAt (ApplyAppleEffect gs 2 t) 1) = Alive (snakeAt gs 1)"
  "Body (snakeAt (ApplyAppleEffect gs 2 t) 1) \<noteq> [] \<Longrightarrow>
     hd (Body (snakeAt (ApplyAppleEffect gs 2 t) 1)) = hd (Body (snakeAt gs 1))"
  by (simp_all add: ApplyAppleEffect_def Let_def hd_growTail hd_butlast split: if_splits)

lemma ApplyAppleEffect1_length:
  assumes "Length (snakeAt gs 0) = int (length (Body (snakeAt gs 0)))"
    and "Body (snakeAt gs 0) \<noteq> []"
  shows "Length (snakeAt (ApplyAppleEffect gs 1 t) 0) =
         int (length (Body (snakeAt (ApplyAppleEffect gs 1 t) 0)))"
  using assms by (simp add: ApplyAppleEffect_def Let_def growTail_def)

lemma ApplyAppleEffect2_length:
  assumes "Length (snakeAt gs 1) = int (length (Body (snakeAt gs 1)))"
    and "Body (snakeAt gs 1) \<noteq> []"
  shows "Length (snakeAt (ApplyAppleEffect gs 2 t) 1) =
         int (length (Body (snakeAt (ApplyAppleEffect gs 2 t) 1)))"
  using assms by (simp add: ApplyAppleEffect_def Let_def growTail_def)

text \<open>What one eating phase does to the snake that eats and to the other one.\<close>

lemma eatPhase1_other:
  "snakeAt (fst (eatPhase gs 1 g)) 1 =
     (if sleepHit gs 0 then (snakeAt gs 1)\<lparr>SleepTurns := 5\<rparr> else snakeAt gs 1)"
  by (auto simp: eatPhase_eq sleepHit_def ApplyAppleEffect1_other split: option.splits)

lemma eatPhase2_other:
  "snakeAt (fst (eatPhase gs 2 g)) 0 =
     (if sleepHit gs 1 then (snakeAt gs 0)\<lparr>SleepTurns := 5\<rparr> else snakeAt gs 0)"
  by (auto simp: eatPhase_eq sleepHit_def ApplyAppleEffect2_other split: option.splits)

lemma eatPhase1_self:
  "Direction (snakeAt (fst (eatPhase gs 1 g)) 0) = Direction (snakeAt gs 0)"
  "Alive (snakeAt (fst (eatPhase gs 1 g)) 0) = Alive (snakeAt gs 0)"
  "Body (snakeAt (fst (eatPhase gs 1 g)) 0) \<noteq> [] \<Longrightarrow>
     hd (Body (snakeAt (fst (eatPhase gs 1 g)) 0)) = hd (Body (snakeAt gs 0))"
  by (auto simp: eatPhase_eq ApplyAppleEffect1_self split: option.splits)

lemma eatPhase2_self:
  "Direction (snakeAt (fst (eatPhase gs 2 g)) 1) = Direction (snakeAt gs 1)"
  "Alive (snakeAt (fst (eatPhase gs 2 g)) 1) = Alive (snakeAt gs 1)"
  "Body (snakeAt (fst (eatPhase gs 2 g)) 1) \<noteq> [] \<Longrightarrow>
     hd (Body (snakeAt (fst (eatPhase gs 2 g)) 1)) = hd (Body (snakeAt gs 1))"
  by (auto simp: eatPhase_eq ApplyAppleEffect2_self split: option.splits)

lemma eatPhase1_length:
  assumes "Length (snakeAt gs 0) = int (length (Body (snakeAt gs 0)))"
    and "Alive (snakeAt gs 0) \<longrightarrow> Body (snakeAt gs 0) \<noteq> []"
  shows "Length (snakeAt (fst (eatPhase gs 1 g)) 0) =
         int (length (Body (snakeAt (fst (eatPhase gs 1 g)) 0)))"
  using assms by (auto simp: eatPhase_eq ApplyAppleEffect1_length split: option.splits)

lemma eatPhase2_length:
  assumes "Length (snakeAt gs 1) = int (length (Body (snakeAt gs 1)))"
    and "Alive (snakeAt gs 1) \<longrightarrow> Body (snakeAt gs 1) \<noteq> []"
  shows "Length (snakeAt (fst (eatPhase gs 2 g)) 1) =
         int (length (Body (snakeAt (fst (eatPhase gs 2 g)) 1)))"
  using assms by (auto simp: eatPhase_eq ApplyAppleEffect2_length split: option.splits)

subsection \<open>Timers, energy, game over\<close>

lemma tickTimers_fields [simp]:
  "Body (tickTimers s) = Body s" "Direction (tickTimers s) = Direction s"
  "Length (tickTimers s) = Length s" "Alive (tickTimers s) = Alive s"
  "ID (tickTimers s) = ID s" "Score (tickTimers s) = Score s"
  "Energy (tickTimers s) = Energy s" "DeathReason (tickTimers s) = DeathReason s"
  "SpeedTurns (tickTimers s) = (if SpeedTurns s > 0 then SpeedTurns s - 1 else SpeedTurns s)"
  "SleepTurns (tickTimers s) = (if SleepTurns s > 0 then SleepTurns s - 1 else SleepTurns s)"
  by (simp_all add: tickTimers_def Let_def)

lemma depleteEnergy_fields [simp]:
  "Body (depleteEnergy s ate) = Body s" "Direction (depleteEnergy s ate) = Direction s"
  "Length (depleteEnergy s ate) = Length s"
  "ID (depleteEnergy s ate) = ID s" "Score (depleteEnergy s ate) = Score s"
  "SpeedTurns (depleteEnergy s ate) = SpeedTurns s"
  "SleepTurns (depleteEnergy s ate) = SleepTurns s"
  by (simp_all add: depleteEnergy_def Let_def)

lemma depleteEnergy_dead [simp]: "\<not> Alive s \<Longrightarrow> depleteEnergy s ate = s"
  by (simp add: depleteEnergy_def)

lemma snakeAt_checkGameOver [simp]: "snakeAt (checkGameOver gs) i = snakeAt gs i"
  by (simp add: checkGameOver_def Let_def)

text \<open>The two snakes at the end of ProcessTurn, from the state after both eating phases.\<close>

lemma ProcessTurn_snakes:
  "snakeAt (fst (ProcessTurn gs move1 move2 g)) 0 =
     depleteEnergy
       (tickTimers (snakeAt (fst (eatPhase (fst (eatPhase (movePhase gs move1 move2) 1 g)) 2
          (snd (snd (eatPhase (movePhase gs move1 move2) 1 g))))) 0))
       (fst (snd (eatPhase (movePhase gs move1 move2) 1 g)))"
  "snakeAt (fst (ProcessTurn gs move1 move2 g)) 1 =
     depleteEnergy
       (tickTimers (snakeAt (fst (eatPhase (fst (eatPhase (movePhase gs move1 move2) 1 g)) 2
          (snd (snd (eatPhase (movePhase gs move1 move2) 1 g))))) 1))
       (fst (snd (eatPhase (fst (eatPhase (movePhase gs move1 move2) 1 g)) 2
          (snd (snd (eatPhase (movePhase gs move1 move2) 1 g))))))"
  by (simp_all add: ProcessTurn_def Let_def split_def)

text \<open>
  C9. When the \<^verbatim>\<open>Length\<close> field of each snake equals the length of its body before
  ProcessTurn, it does so after ProcessTurn, for every pair of moves, every set of
  apples of any type and every random source.
\<close>

theorem ProcessTurn_keeps_length:
  assumes "Length (snakeAt gs 0) = int (length (Body (snakeAt gs 0)))"
    and "Length (snakeAt gs 1) = int (length (Body (snakeAt gs 1)))"
  shows "Length (snakeAt (fst (ProcessTurn gs move1 move2 g)) 0) =
           int (length (Body (snakeAt (fst (ProcessTurn gs move1 move2 g)) 0))) \<and>
         Length (snakeAt (fst (ProcessTurn gs move1 move2 g)) 1) =
           int (length (Body (snakeAt (fst (ProcessTurn gs move1 move2 g)) 1)))"
proof -
  define gm where "gm = movePhase gs move1 move2"
  define e1 where "e1 = eatPhase gm 1 g"
  define e2 where "e2 = eatPhase (fst e1) 2 (snd (snd e1))"
  have "lengthsAgree gm"
    unfolding gm_def using assms by (intro movePhase_lengthsAgree) (simp add: lengthsAgree_def)
  then have m0: "Length (snakeAt gm 0) = int (length (Body (snakeAt gm 0)))"
    and m1: "Length (snakeAt gm 1) = int (length (Body (snakeAt gm 1)))"
    by (simp_all add: lengthsAgree_def)
  have a0: "Alive (snakeAt gm 0) \<longrightarrow> Body (snakeAt gm 0) \<noteq> []"
    and a1: "Alive (snakeAt gm 1) \<longrightarrow> Body (snakeAt gm 1) \<noteq> []"
    unfolding gm_def by (simp_all add: movePhase_alive)
  have p0: "Length (snakeAt (fst e1) 0) = int (length (Body (snakeAt (fst e1) 0)))"
    unfolding e1_def using m0 a0 by (rule eatPhase1_length)
  have p1: "Length (snakeAt (fst e1) 1) = int (length (Body (snakeAt (fst e1) 1)))"
    and q1: "Alive (snakeAt (fst e1) 1) \<longrightarrow> Body (snakeAt (fst e1) 1) \<noteq> []"
    unfolding e1_def using m1 a1 by (simp_all add: eatPhase1_other)
  have r1: "Length (snakeAt (fst e2) 1) = int (length (Body (snakeAt (fst e2) 1)))"
    unfolding e2_def using p1 q1 by (rule eatPhase2_length)
  have r0: "Length (snakeAt (fst e2) 0) = int (length (Body (snakeAt (fst e2) 0)))"
    unfolding e2_def using p0 by (simp add: eatPhase2_other)
  show ?thesis
    using r0 r1 unfolding ProcessTurn_snakes e2_def e1_def gm_def by simp
qed


theorem ProcessTurn_keeps_length_witness:
  "Length (snakeAt sleep_state 0) = int (length (Body (snakeAt sleep_state 0))) \<and>
   Length (snakeAt sleep_state 1) = int (length (Body (snakeAt sleep_state 1))) \<and>
   Length (snakeAt (fst (ProcessTurn sleep_state DirectionDown DirectionRight id)) 0) =
     int (length (Body (snakeAt (fst (ProcessTurn sleep_state DirectionDown DirectionRight id)) 0))) \<and>
   Length (snakeAt (fst (ProcessTurn sleep_state DirectionDown DirectionRight id)) 1) =
     int (length (Body (snakeAt (fst (ProcessTurn sleep_state DirectionDown DirectionRight id)) 1)))"
proof -
  have a: "Length (snakeAt sleep_state 0) = int (length (Body (snakeAt sleep_state 0)))"
    and b: "Length (snakeAt sleep_state 1) = int (length (Body (snakeAt sleep_state 1)))"
    by (simp_all add: sleep_state_def snakeAt_def)
  from ProcessTurn_keeps_length [OF a b, of DirectionDown DirectionRight id] a b
  show ?thesis by blast
qed


lemma ProcessTurn_dead_snake_eq:
  assumes "i = 0 \<or> i = 1" and "\<not> Alive (snakeAt gs i)"
  shows "snakeAt (fst (ProcessTurn gs move1 move2 g)) i =
           tickTimers (if sleepHit (movePhase gs move1 move2) (1 - i)
                       then (snakeAt gs i)\<lparr>SleepTurns := 5\<rparr> else snakeAt gs i)"
proof -
  define gm where "gm = movePhase gs move1 move2"
  define e1 where "e1 = eatPhase gm 1 g"
  define e2 where "e2 = eatPhase (fst e1) 2 (snd (snd e1))"
  have gm_i: "snakeAt gm i = snakeAt gs i"
    unfolding gm_def using assms(2,1) by (rule movePhase_dead)
  from assms(1) show ?thesis
  proof
    assume i: "i = 0"
    have "e1 = (gm, False, g)"
      unfolding e1_def using assms(2) gm_i by (simp add: i eatPhase_dead)
    then have "snakeAt (fst e2) 0 =
        (if sleepHit gm 1 then (snakeAt gs 0)\<lparr>SleepTurns := 5\<rparr> else snakeAt gs 0)"
      unfolding e2_def using gm_i by (simp add: i eatPhase2_other)
    then show ?thesis
      unfolding ProcessTurn_snakes e2_def [symmetric] e1_def [symmetric] gm_def [symmetric] i
      using assms(2) by (simp add: i)
  next
    assume i: "i = 1"
    have s1: "snakeAt (fst e1) 1 =
        (if sleepHit gm 0 then (snakeAt gs 1)\<lparr>SleepTurns := 5\<rparr> else snakeAt gs 1)"
      unfolding e1_def using gm_i by (simp add: i eatPhase1_other)
    then have "\<not> Alive (snakeAt (fst e1) 1)"
      using assms(2) by (simp add: i)
    then have "e2 = (fst e1, False, snd (snd e1))"
      unfolding e2_def by (simp add: eatPhase_dead)
    then show ?thesis
      unfolding ProcessTurn_snakes e2_def [symmetric] e1_def [symmetric] gm_def [symmetric] i
      using assms(2) s1 by (simp add: i)
  qed
qed

text \<open>
  C10 (amended). A snake that is dead when ProcessTurn begins keeps its id, body,
  direction, length, score, energy, alive flag and death reason. Its speed turns go
  down by one when positive. Its sleep turns go down by one when positive, unless the
  other snake is alive after the movement and has a SLEEP apple as the first apple under
  its head: then the dead snake's sleep turns are set to 5 by the apple and end the
  turn at 4.
\<close>

theorem ProcessTurn_dead_snake_frame:
  assumes "i = 0 \<or> i = 1" and "\<not> Alive (snakeAt gs i)"
  shows "let s = snakeAt gs i; s' = snakeAt (fst (ProcessTurn gs move1 move2 g)) i in
     ID s' = ID s \<and> Body s' = Body s \<and> Direction s' = Direction s \<and>
     Length s' = Length s \<and> Score s' = Score s \<and> Energy s' = Energy s \<and>
     Alive s' = Alive s \<and> DeathReason s' = DeathReason s \<and>
     SpeedTurns s' = (if SpeedTurns s > 0 then SpeedTurns s - 1 else SpeedTurns s) \<and>
     SleepTurns s' =
       (if sleepHit (movePhase gs move1 move2) (1 - i) then 4
        else if SleepTurns s > 0 then SleepTurns s - 1 else SleepTurns s)"
  unfolding Let_def ProcessTurn_dead_snake_eq [OF assms] by simp

theorem ProcessTurn_dead_snake_frame_witness:
  "\<not> Alive (snakeAt sleep_state 0) \<and>
   sleepHit (movePhase sleep_state DirectionDown DirectionRight) 1 \<and>
   Body (snakeAt (fst (ProcessTurn sleep_state DirectionDown DirectionRight id)) 0) =
     [\<lparr>X = 0, Y = 1\<rparr>, \<lparr>X = 0, Y = 0\<rparr>] \<and>
   Energy (snakeAt (fst (ProcessTurn sleep_state DirectionDown DirectionRight id)) 0) = 20 \<and>
   SpeedTurns (snakeAt (fst (ProcessTurn sleep_state DirectionDown DirectionRight id)) 0) = 1 \<and>
   SleepTurns (snakeAt (fst (ProcessTurn sleep_state DirectionDown DirectionRight id)) 0) = 4"
proof -
  have d: "\<not> Alive (snakeAt sleep_state 0)"
    by (simp add: sleep_state_def snakeAt_def)
  have h: "sleepHit (movePhase sleep_state DirectionDown DirectionRight) (1 - 0)"
    by code_simp
  have i: "(0::int) = 0 \<or> (0::int) = 1" by simp
  from ProcessTurn_dead_snake_frame [OF i d, of DirectionDown DirectionRight id] h d
  show ?thesis
    by (simp add: Let_def sleep_state_def snakeAt_def)
qed

text \<open>
  C10 as stated fails when the living opponent eats a SLEEP apple: the dead snake's
  sleep turns were 0 and are 4 after the turn.
\<close>

theorem ProcessTurn_dead_snake_sleep_counterexample:
  "\<not> Alive (snakeAt sleep_state 0) \<and> SleepTurns (snakeAt sleep_state 0) = 0 \<and>
   SleepTurns (snakeAt (fst (ProcessTurn sleep_state DirectionDown DirectionRight id)) 0) = 4"
  by code_simp

lemma isNot180_Move_again:
  assumes "Alive s"
  shows "(if isNot180 (Move s m False) m then m else Direction (Move s m False)) =
         (if isNot180 s m then m else Direction s)"
proof (cases "isNot180 s m")
  case True
  with assms have "Direction (Move s m False) = m"
    by (simp add: Move_alive_unfold)
  with True show ?thesis by simp
next
  case False
  with assms have d: "Direction (Move s m False) = Direction s"
    by (simp add: Move_alive_unfold)
  have "\<not> isNot180 (Move s m False) m"
    using False by (simp add: isNot180_def d split: if_splits)
  with False d show ?thesis by simp
qed

lemma Move_twice:
  assumes "Alive s" and "Body s \<noteq> []"
  shows "Direction (Move (Move s m False) m False) = (if isNot180 s m then m else Direction s)"
    and "Body (Move (Move s m False) m False) =
           getNextPosition (getNextPosition (GetHead s) (if isNot180 s m then m else Direction s))
             (if isNot180 s m then m else Direction s) #
           butlast (getNextPosition (GetHead s) (if isNot180 s m then m else Direction s) #
                    butlast (Body s))"
proof -
  let ?d = "if isNot180 s m then m else Direction s"
  let ?s1 = "Move s m False"
  have a1: "Alive ?s1" using assms(1) by simp
  have b1: "Body ?s1 = getNextPosition (GetHead s) ?d # butlast (Body s)"
    using assms by (simp add: Move_alive_unfold Let_def)
  have d1: "Direction ?s1 = ?d"
    using assms(1) by (simp add: Move_alive_unfold Let_def)
  have h1: "GetHead ?s1 = getNextPosition (GetHead s) ?d"
    by (simp add: GetHead_def b1)
  have again: "(if isNot180 ?s1 m then m else Direction ?s1) = ?d"
    using assms(1) by (rule isNot180_Move_again)
  show "Direction (Move ?s1 m False) = ?d"
    using a1 again by (simp add: Move_alive_unfold [of ?s1] Let_def del: Move_fields)
  show "Body (Move ?s1 m False) =
          getNextPosition (getNextPosition (GetHead s) ?d) ?d #
          butlast (getNextPosition (GetHead s) ?d # butlast (Body s))"
    using a1 again h1 b1 by (simp add: Move_alive_unfold [of ?s1] Let_def del: Move_fields)
qed


lemma movePhase_two_steps:
  assumes i: "i = 0 \<or> i = 1"
    and alive: "Alive (snakeAt gs i)"
    and speed: "SpeedTurns (snakeAt gs i) > 0"
    and awake: "SleepTurns (snakeAt gs i) \<le> 0"
    and quiet: "\<not> snd (subStep (gs\<lparr>Turn := Turn gs + 1\<rparr>) move1 move2 0
                         (if SpeedTurns (snakeAt gs 0) > 0 then 2 else 1)
                         (if SpeedTurns (snakeAt gs 1) > 0 then 2 else 1))"
  shows "dimmed (Move (Move (snakeAt gs i) (if i = 0 then move1 else move2) False)
                   (if i = 0 then move1 else move2) False)
                (snakeAt (movePhase gs move1 move2) i)"
    and "Body (snakeAt gs i) \<noteq> []"
proof -
  let ?g0 = "gs\<lparr>Turn := Turn gs + 1\<rparr>"
  let ?a = "if SpeedTurns (snakeAt gs 0) > 0 then 2 else (1::int)"
  let ?b = "if SpeedTurns (snakeAt gs 1) > 0 then 2 else (1::int)"
  let ?m = "if i = 0 then move1 else move2"
  let ?st1 = "subStep ?g0 move1 move2 0 ?a ?b"
  let ?ga = "moveSnakes ?g0 move1 move2 0 ?a ?b"
  let ?st2 = "subStep ?ga move1 move2 1 ?a ?b"
  let ?gb = "moveSnakes ?ga move1 move2 1 ?a ?b"
  have n: "(if SpeedTurns (snakeAt gs 0) > 0 \<or> SpeedTurns (snakeAt gs 1) > 0 then 2 else (1::int)) = 2"
    using i speed by auto
  have ga: "fst ?st1 = ?ga"
    using quiet by (rule subStep_quiet)
  have "moveLoop (fst ?st2) move1 move2 2 2 ?a ?b = fst ?st2"
    by (simp add: moveLoop.simps [of "fst ?st2"])
  then have "moveLoop ?ga move1 move2 1 2 ?a ?b = fst ?st2"
    by (simp add: moveLoop.simps [of ?ga])
  then have loop: "movePhase gs move1 move2 = fst ?st2"
    unfolding movePhase_eq n using quiet ga by (simp add: moveLoop.simps [of ?g0])
  have s1: "snakeAt ?ga i = Move (snakeAt gs i) ?m False"
    using i speed awake by (auto simp: snakeAt_moveSnakes)
  have s2: "snakeAt ?gb i = Move (Move (snakeAt gs i) ?m False) ?m False"
    using i speed awake by (auto simp: snakeAt_moveSnakes)
  have "dimmed (snakeAt ?gb i) (snakeAt (fst ?st2) i)"
    by (rule lifeStep_snake [OF subStep_lifeStep])
  then show "dimmed (Move (Move (snakeAt gs i) ?m False) ?m False)
                (snakeAt (movePhase gs move1 move2) i)"
    unfolding s2 loop .
  have "Alive (snakeAt (fst ?st1) i)"
    unfolding ga s1 using alive by simp
  then have "Body (snakeAt (fst ?st1) i) \<noteq> []"
    using i by (rule subStep_alive)
  then have "Body (Move (snakeAt gs i) ?m False) \<noteq> []"
    unfolding ga s1 .
  moreover have "length (Body (Move (snakeAt gs i) ?m False)) = length (Body (snakeAt gs i))"
    by (rule Move_fields)
  ultimately show "Body (snakeAt gs i) \<noteq> []"
    by (metis length_0_conv)
qed

lemma ProcessTurn_head:
  assumes "i = 0 \<or> i = 1"
  shows "Direction (snakeAt (fst (ProcessTurn gs move1 move2 g)) i) =
           Direction (snakeAt (movePhase gs move1 move2) i)"
    and "Body (snakeAt (fst (ProcessTurn gs move1 move2 g)) i) \<noteq> [] \<Longrightarrow>
           hd (Body (snakeAt (fst (ProcessTurn gs move1 move2 g)) i)) =
           hd (Body (snakeAt (movePhase gs move1 move2) i))"
proof -
  define gm where "gm = movePhase gs move1 move2"
  define e1 where "e1 = eatPhase gm 1 g"
  define e2 where "e2 = eatPhase (fst e1) 2 (snd (snd e1))"
  have fin: "Direction (snakeAt (fst (ProcessTurn gs move1 move2 g)) i) = Direction (snakeAt (fst e2) i)"
    "Body (snakeAt (fst (ProcessTurn gs move1 move2 g)) i) = Body (snakeAt (fst e2) i)"
    using assms unfolding e2_def e1_def gm_def by (auto simp: ProcessTurn_snakes)
  have d: "Direction (snakeAt (fst e2) i) = Direction (snakeAt gm i)"
    using assms unfolding e2_def e1_def
    by (auto simp: eatPhase1_self eatPhase2_self eatPhase1_other eatPhase2_other)
  show "Direction (snakeAt (fst (ProcessTurn gs move1 move2 g)) i) =
           Direction (snakeAt (movePhase gs move1 move2) i)"
    using fin(1) d by (simp add: gm_def)
  assume "Body (snakeAt (fst (ProcessTurn gs move1 move2 g)) i) \<noteq> []"
  then have ne: "Body (snakeAt (fst e2) i) \<noteq> []"
    by (simp add: fin)
  from assms have "hd (Body (snakeAt (fst e2) i)) = hd (Body (snakeAt gm i))"
  proof
    assume i: "i = 0"
    have b: "Body (snakeAt (fst e2) 0) = Body (snakeAt (fst e1) 0)"
      unfolding e2_def by (simp add: eatPhase2_other)
    with ne have "Body (snakeAt (fst e1) 0) \<noteq> []"
      by (simp add: i)
    then have "hd (Body (snakeAt (fst e1) 0)) = hd (Body (snakeAt gm 0))"
      unfolding e1_def by (rule eatPhase1_self)
    with b show ?thesis by (simp add: i)
  next
    assume i: "i = 1"
    have b: "Body (snakeAt (fst e1) 1) = Body (snakeAt gm 1)"
      unfolding e1_def by (simp add: eatPhase1_other)
    from ne have "hd (Body (snakeAt (fst e2) 1)) = hd (Body (snakeAt (fst e1) 1))"
      unfolding e2_def i by (rule eatPhase2_self)
    with b show ?thesis by (simp add: i)
  qed
  then show "hd (Body (snakeAt (fst (ProcessTurn gs move1 move2 g)) i)) =
           hd (Body (snakeAt (movePhase gs move1 move2) i))"
    by (simp add: fin gm_def)
qed

text \<open>
  C5 (amended). Take a snake that is alive, has speed turns left and is not asleep, in a
  turn whose first sub-step reports no collision for either snake. Then the movement of
  ProcessTurn advances the snake exactly two cells in one direction \<open>d\<close>: the requested
  move, or the current direction when the request is a rejected reversal. Its body after
  the movement is the cell two steps from the old head in direction \<open>d\<close>, followed, as
  far as the old length allows, by the cell one step from it and the old body without
  its last two cells; at the end of ProcessTurn its direction is \<open>d\<close> and its head,
  if the body is not empty, is that cell two steps away.
\<close>

theorem ProcessTurn_speed_two_cells:
  assumes "i = 0 \<or> i = 1"
    and "Alive (snakeAt gs i)"
    and "SpeedTurns (snakeAt gs i) > 0"
    and "SleepTurns (snakeAt gs i) \<le> 0"
    and "\<not> snd (subStep (gs\<lparr>Turn := Turn gs + 1\<rparr>) move1 move2 0
                         (if SpeedTurns (snakeAt gs 0) > 0 then 2 else 1)
                         (if SpeedTurns (snakeAt gs 1) > 0 then 2 else 1))"
  shows "let s = snakeAt gs i;
             m = (if i = 0 then move1 else move2);
             d = (if isNot180 s m then m else Direction s);
             h1 = getNextPosition (GetHead s) d;
             h2 = getNextPosition h1 d;
             s' = snakeAt (fst (ProcessTurn gs move1 move2 g)) i
         in Body (snakeAt (movePhase gs move1 move2) i) = h2 # butlast (h1 # butlast (Body s)) \<and>
            Direction s' = d \<and>
            (Body s' \<noteq> [] \<longrightarrow> hd (Body s') = h2)"
proof -
  let ?s = "snakeAt gs i"
  let ?m = "if i = 0 then move1 else move2"
  let ?d = "if isNot180 ?s ?m then ?m else Direction ?s"
  let ?h1 = "getNextPosition (GetHead ?s) ?d"
  let ?h2 = "getNextPosition ?h1 ?d"
  let ?gm = "movePhase gs move1 move2"
  let ?s' = "snakeAt (fst (ProcessTurn gs move1 move2 g)) i"
  from movePhase_two_steps [OF assms]
  have dm: "dimmed (Move (Move ?s ?m False) ?m False) (snakeAt ?gm i)"
    and ne: "Body ?s \<noteq> []" by simp_all
  have body: "Body (snakeAt ?gm i) = ?h2 # butlast (?h1 # butlast (Body ?s))"
    unfolding dimmed_fields(1) [OF dm] using assms(2) ne by (rule Move_twice(2))
  have dir: "Direction (snakeAt ?gm i) = ?d"
    unfolding dimmed_fields(2) [OF dm] using assms(2) ne by (rule Move_twice(1))
  have "Direction ?s' = ?d"
    using ProcessTurn_head(1) [OF assms(1)] dir by simp
  moreover have "hd (Body ?s') = ?h2" if "Body ?s' \<noteq> []"
    using ProcessTurn_head(2) [OF assms(1) that] body by simp
  ultimately show ?thesis
    unfolding Let_def using body by blast
qed

theorem ProcessTurn_speed_two_cells_witness:
  "Alive (snakeAt speed_state 0) \<and> SpeedTurns (snakeAt speed_state 0) = 3 \<and>
   SleepTurns (snakeAt speed_state 0) = 0 \<and>
   Body (snakeAt speed_state 0) =
     [\<lparr>X = 2, Y = 2\<rparr>, \<lparr>X = 1, Y = 2\<rparr>, \<lparr>X = 0, Y = 2\<rparr>, \<lparr>X = 0, Y = 3\<rparr>] \<and>
   Body (snakeAt (movePhase speed_state DirectionRight DirectionLeft) 0) =
     [\<lparr>X = 4, Y = 2\<rparr>, \<lparr>X = 3, Y = 2\<rparr>, \<lparr>X = 2, Y = 2\<rparr>, \<lparr>X = 1, Y = 2\<rparr>] \<and>
   Direction (snakeAt (fst (ProcessTurn speed_state DirectionRight DirectionLeft id)) 0) =
     DirectionRight"
proof -
  have i: "(0::int) = 0 \<or> (0::int) = 1" by simp
  have a: "Alive (snakeAt speed_state 0)" and s: "SpeedTurns (snakeAt speed_state 0) > 0"
    and w: "SleepTurns (snakeAt speed_state 0) \<le> 0"
    by (simp_all add: speed_state_def snakeAt_def)
  have q: "\<not> snd (subStep (speed_state\<lparr>Turn := Turn speed_state + 1\<rparr>)
                      DirectionRight DirectionLeft 0
                      (if SpeedTurns (snakeAt speed_state 0) > 0 then 2 else 1)
                      (if SpeedTurns (snakeAt speed_state 1) > 0 then 2 else 1))"
    by code_simp
  from ProcessTurn_speed_two_cells [OF i a s w q, of id] show ?thesis
    by (simp add: Let_def speed_state_def snakeAt_def isNot180_def opposite_def GetHead_def
        getNextPosition_def)
qed

text \<open>
  C5 as stated fails when a snake dies in the first sub-step: snake 2 runs into the
  right wall, the loop breaks, and snake 1, with three speed turns left and awake, has
  advanced one cell.
\<close>

theorem ProcessTurn_speed_one_cell_counterexample:
  "Alive (snakeAt speed_wall_state 0) \<and> SpeedTurns (snakeAt speed_wall_state 0) = 3 \<and>
   SleepTurns (snakeAt speed_wall_state 0) = 0 \<and>
   Body (snakeAt speed_wall_state 0) =
     [\<lparr>X = 2, Y = 2\<rparr>, \<lparr>X = 1, Y = 2\<rparr>, \<lparr>X = 0, Y = 2\<rparr>, \<lparr>X = 0, Y = 3\<rparr>] \<and>
   Body (snakeAt (fst (ProcessTurn speed_wall_state DirectionRight DirectionRight id)) 0) =
     [\<lparr>X = 3, Y = 2\<rparr>, \<lparr>X = 2, Y = 2\<rparr>, \<lparr>X = 1, Y = 2\<rparr>, \<lparr>X = 0, Y = 2\<rparr>]"
  by code_simp

end
